theory Spec2Isabelle
  imports Complex_Main "HOL-Library.Sublist"
begin

section \<open>Python values used by the package\<close>

subsection \<open>Integers as text\<close>

text \<open>
  Python integers are unbounded, so they are \<^typ>\<open>int\<close>.  \<open>str(n)\<close> of a
  non-negative integer is its decimal digit string without leading zeros
  (\<open>str_digits\<close>, which is only applied to non-negative numbers).
\<close>

definition digit_char :: "int \<Rightarrow> char" where
  "digit_char d = ''0123456789'' ! nat d"

function str_digits :: "int \<Rightarrow> string" where
  "str_digits n =
     (if n < 10 then [digit_char n] else str_digits (n div 10) @ [digit_char (n mod 10)])"
  by pat_completeness auto
termination
  by (relation "measure nat") auto

declare str_digits.simps [simp del]

definition str_int :: "int \<Rightarrow> string" where
  "str_int i = (if i < 0 then CHR ''-'' # str_digits (- i) else str_digits i)"

text \<open>
  A format specification with a width and no alignment right-aligns a number and fills
  with spaces; text that is already wider is left as it is.
\<close>

definition rjust :: "nat \<Rightarrow> string \<Rightarrow> string" where
  "rjust w s = replicate (w - length s) CHR '' '' @ s"

text \<open>The format specification \<open>{i:<w>d}\<close>.\<close>

definition format_d :: "nat \<Rightarrow> int \<Rightarrow> string" where
  "format_d w i = rjust w (str_int i)"

subsection \<open>Binary floating point\<close>

text \<open>
  A Python \<open>float\<close> is an IEEE 754 binary64 number.  A finite one is a sign, a
  significand and an exponent, and stands for \<open>\<plusminus> mantissa \<times> 2 ^ exponent\<close>.
  The sign is kept apart because zero has one: \<open>-100.0 * 0\<close> is \<open>-0.0\<close>, and
  it prints with its sign.  Infinities and NaN are left out: every operation below rounds
  to the nearest number with a 53-bit significand, ties to the even significand, down to the
  subnormal exponent \<open>-1074\<close>, and the numbers of this package stay far below the
  overflow threshold \<open>2 ^ 1024\<close>, which is not modelled.
\<close>

datatype double = Double (negative: bool) (mantissa: int) (exponent: int)

text \<open>\<open>int.bit_length()\<close> of a non-negative integer.\<close>

function bit_length :: "int \<Rightarrow> int" where
  "bit_length n = (if n \<le> 0 then 0 else 1 + bit_length (n div 2))"
  by pat_completeness auto
termination
  by (relation "measure nat") auto

declare bit_length.simps [simp del]

text \<open>The fraction \<open>p / q\<close> rounded to the nearest integer, ties to even.\<close>

definition round_half_even :: "int \<Rightarrow> int \<Rightarrow> int" where
  "round_half_even p q =
     (let f = p div q; r = p mod q
      in if 2 * r < q then f
         else if q < 2 * r then f + 1
         else if even f then f else f + 1)"

text \<open>The fraction \<open>(p / q) / 2 ^ e\<close> as a numerator and a denominator.\<close>

definition shift_frac :: "int \<Rightarrow> int \<Rightarrow> int \<Rightarrow> int \<times> int" where
  "shift_frac p q e = (if 0 \<le> e then (p, q * 2 ^ nat e) else (p * 2 ^ nat (- e), q))"

text \<open>\<open>\<lfloor>log\<^sub>2 (p / q)\<rfloor>\<close> for positive \<open>p\<close> and \<open>q\<close>.\<close>

definition floor_log2 :: "int \<Rightarrow> int \<Rightarrow> int" where
  "floor_log2 p q =
     (let k = bit_length p - bit_length q; (a, b) = shift_frac p q k
      in if b \<le> a then k else k - 1)"

text \<open>The double nearest to \<open>\<plusminus> p / q\<close>.\<close>

definition round_to_double :: "bool \<Rightarrow> int \<Rightarrow> int \<Rightarrow> double" where
  "round_to_double s p q =
     (if p = 0 then Double s 0 0
      else let e = max (floor_log2 p q - 52) (- 1074); (a, b) = shift_frac p q e
           in Double s (round_half_even a b) e)"

text \<open>
  A decimal literal \<open>n / 10 ^ k\<close> of the source text (\<open>0.05\<close> is
  \<open>float_literal 5 2\<close>), and the conversion of an integer operand.
\<close>

definition float_literal :: "int \<Rightarrow> nat \<Rightarrow> double" where
  "float_literal n k = round_to_double False n (10 ^ k)"

definition float_of_int :: "int \<Rightarrow> double" where
  "float_of_int i = round_to_double (i < 0) \<bar>i\<bar> 1"

definition float_neg :: "double \<Rightarrow> double" where
  "float_neg x = Double (\<not> negative x) (mantissa x) (exponent x)"

text \<open>The exact dyadic number \<open>\<plusminus> m \<times> 2 ^ e\<close> rounded to a double.\<close>

definition round_dyadic :: "bool \<Rightarrow> int \<Rightarrow> int \<Rightarrow> double" where
  "round_dyadic s m e = (let (a, b) = shift_frac m 1 (- e) in round_to_double s a b)"

definition float_mul :: "double \<Rightarrow> double \<Rightarrow> double" where
  "float_mul x y =
     round_dyadic (negative x \<noteq> negative y) (mantissa x * mantissa y) (exponent x + exponent y)"

text \<open>
  The signed significand of \<open>x\<close> at the exponent \<open>e \<le> exponent x\<close>.  An exact
  sum of zero is \<open>-0.0\<close> only when both operands are negative (zeros).
\<close>

definition signed_at :: "int \<Rightarrow> double \<Rightarrow> int" where
  "signed_at e x =
     (let m = mantissa x * 2 ^ nat (exponent x - e) in if negative x then - m else m)"

definition float_add :: "double \<Rightarrow> double \<Rightarrow> double" where
  "float_add x y =
     (let e = min (exponent x) (exponent y); t = signed_at e x + signed_at e y
      in if t = 0 then Double (negative x \<and> negative y) 0 0
         else round_dyadic (t < 0) \<bar>t\<bar> e)"

definition float_sub :: "double \<Rightarrow> double \<Rightarrow> double" where
  "float_sub x y = float_add x (float_neg y)"

text \<open>
  The format specification \<open>{x:<w>.<prec>f}\<close>: the exact value of the double,
  correctly rounded to \<open>prec\<close> decimals (ties to even), with a minus sign when the
  sign bit is set.
\<close>

definition fixed_digits :: "nat \<Rightarrow> double \<Rightarrow> string" where
  "fixed_digits prec x =
     (let (a, b) = shift_frac (mantissa x * 10 ^ prec) 1 (- exponent x);
          ds = str_digits (round_half_even a b);
          zs = replicate (Suc prec - length ds) CHR ''0'' @ ds;
          k = length zs - prec
      in (if negative x then ''-'' else '''') @ take k zs
         @ (if prec = 0 then '''' else CHR ''.'' # drop k zs))"

definition format_f :: "nat \<Rightarrow> nat \<Rightarrow> double \<Rightarrow> string" where
  "format_f w prec x = rjust w (fixed_digits prec x)"


section \<open>The world the package acts on\<close>

subsection \<open>Paths, files and exceptions\<close>

text \<open>
  A \<open>pathlib.Path\<close> is the list of its components; \<open>p / name\<close> appends one.
  The file system maps each existing path to a regular file with its text or to a directory.
  Text files are opened with the platform's defaults; the model takes the POSIX ones, where
  \<open>"\n"\<close> is written as the single character 10 and the text is ASCII.  Symbolic
  links, permissions and full disks are outside the model.
\<close>

type_synonym path = "string list"

definition path_join :: "path \<Rightarrow> string \<Rightarrow> path" where
  "path_join p name = p @ [name]"

definition parent :: "path \<Rightarrow> path" where
  "parent p = butlast p"

datatype node = File string | Dir

type_synonym filesystem = "path \<rightharpoonup> node"

definition path_exists :: "filesystem \<Rightarrow> path \<Rightarrow> bool" where
  "path_exists fs p = (fs p \<noteq> None)"


text \<open>
  The exceptions that reach the package.  \<open>TimeoutExpired\<close> carries its
  \<open>timeout\<close> attribute; \<open>ExternalError\<close> stands for whatever else a collaborator
  outside the package raises.
\<close>

datatype error =
    FileNotFoundError
  | NotADirectoryError
  | IsADirectoryError
  | FileExistsError
  | RuntimeError string
  | TimeoutExpired int
  | ExternalError string

text \<open>
  The state a call can read and change: the file system, the external commands started so
  far (argument vector and timeout, oldest first) and the records handed to the logger
  (level and message).
\<close>

record world =
  files :: filesystem
  commands :: "(string list \<times> int) list"
  log :: "(string \<times> string) list"

type_synonym 'a io = "world \<Rightarrow> (error + 'a) \<times> world"

definition return_io :: "'a \<Rightarrow> 'a io" where
  "return_io x w = (Inr x, w)"

definition raise_io :: "error \<Rightarrow> 'a io" where
  "raise_io e w = (Inl e, w)"

text \<open>Sequencing: an exception of the first statement skips the rest and keeps the state.\<close>

definition bind_io :: "'a io \<Rightarrow> ('a \<Rightarrow> 'b io) \<Rightarrow> 'b io" where
  "bind_io m k w = (case m w of (Inl e, w') \<Rightarrow> (Inl e, w') | (Inr x, w') \<Rightarrow> k x w')"

definition then_io :: "unit io \<Rightarrow> 'b io \<Rightarrow> 'b io" where
  "then_io m k = bind_io m (\<lambda>_. k)"

subsection \<open>Writing a text file\<close>

text \<open>
  A path whose parent directory does not exist cannot be created.  The operating system
  reports \<open>ENOTDIR\<close> (\<open>NotADirectoryError\<close>) when it meets a regular file on the way
  to the parent and \<open>ENOENT\<close> (\<open>FileNotFoundError\<close>) otherwise.
\<close>

definition below_file :: "filesystem \<Rightarrow> path \<Rightarrow> bool" where
  "below_file fs p =
     list_ex (\<lambda>q. case fs q of Some (File _) \<Rightarrow> True | _ \<Rightarrow> False) (prefixes p)"

definition missing_parent :: "filesystem \<Rightarrow> path \<Rightarrow> error" where
  "missing_parent fs p =
     (if below_file fs (parent p) then NotADirectoryError else FileNotFoundError)"

text \<open>
  \<open>open(p, "w")\<close> fails when the parent of \<open>p\<close> is missing or is a file, or when
  \<open>p\<close> is a directory; otherwise it creates or truncates \<open>p\<close>.  The file object
  is the text written so far, \<open>f.write(s)\<close> appends to it, and leaving the
  \<open>with\<close> block stores the text.  The bodies below cannot raise.
\<close>

definition store_text :: "path \<Rightarrow> string \<Rightarrow> unit io" where
  "store_text p t w =
     (case files w (parent p) of
        None \<Rightarrow> (Inl (missing_parent (files w) p), w)
      | Some (File _) \<Rightarrow> (Inl NotADirectoryError, w)
      | Some Dir \<Rightarrow>
          (case files w p of
             Some Dir \<Rightarrow> (Inl IsADirectoryError, w)
           | _ \<Rightarrow> (Inr (), w\<lparr>files := (files w)(p \<mapsto> File t)\<rparr>)))"

definition with_open_w :: "path \<Rightarrow> (string \<Rightarrow> string) \<Rightarrow> unit io" where
  "with_open_w p body = store_text p (body [])"

definition file_write :: "string \<Rightarrow> string \<Rightarrow> string" where
  "file_write f s = f @ s"

text \<open>\<open>range(a, b)\<close>, and a \<open>for\<close> loop over a list that updates the file object.\<close>

definition py_range :: "int \<Rightarrow> int \<Rightarrow> int list" where
  "py_range a b = [a..b - 1]"

definition for_each :: "int list \<Rightarrow> (int \<Rightarrow> string \<Rightarrow> string) \<Rightarrow> string \<Rightarrow> string" where
  "for_each xs step f = foldl (\<lambda>f i. step i f) f xs"

section \<open>The mesh synthesizer\<close>

text \<open>
  \<open>Fesom2p6ModelRun._create_minimal_mesh_files(mesh_dir)\<close>: six \<open>with\<close> blocks,
  one per file, in the order of the source.
\<close>

definition create_minimal_mesh_files_2p6 :: "path \<Rightarrow> unit io" where
  "create_minimal_mesh_files_2p6 mesh_dir =
     then_io (with_open_w (path_join mesh_dir ''nod2d.out'') (\<lambda>f.
        for_each (py_range 1 11) (\<lambda>i f.
          let lon = float_add (float_literal 3000 1) (float_mul (float_of_int i) (float_literal 1 1));
              lat = float_add (float_literal 740 1) (float_mul (float_of_int i) (float_literal 5 2))
          in file_write f (format_d 8 i @ '' '' @ format_f 14 7 lon @ ''  '' @ format_f 14 7 lat
                      @ ''        0\<newline>''))
          (file_write f ''10\<newline>'')))
    (then_io (with_open_w (path_join mesh_dir ''elem2d.out'') (\<lambda>f.
        for_each (py_range 1 6) (\<lambda>i f.
          let n1 = i; n2 = i + 1; n3 = i + 2;
              f = file_write f (format_d 8 i @ '' '' @ format_d 8 n1 @ '' '' @ format_d 8 n2 @ ''\<newline>'')
          in file_write f (format_d 8 n2 @ '' '' @ format_d 8 n3 @ '' '' @ format_d 8 (i mod 8 + 1)
                      @ ''\<newline>''))
          (file_write f ''5\<newline>'')))
    (then_io (with_open_w (path_join mesh_dir ''nod3d.out'') (\<lambda>f.
        for_each (py_range 1 31) (\<lambda>i f.
          let lon = float_add (float_literal 3000 1)
                      (float_mul (float_of_int (i mod 10)) (float_literal 1 1));
              lat = float_add (float_literal 740 1)
                      (float_mul (float_of_int (i mod 10)) (float_literal 5 2));
              depth = float_mul (float_neg (float_literal 1000 1)) (float_of_int (i div 10))
          in file_write f (format_d 8 i @ '' '' @ format_f 14 7 lon @ ''  '' @ format_f 14 7 lat
                      @ '' '' @ format_f 14 7 depth @ ''        0\<newline>''))
          (file_write f ''30\<newline>'')))
    (then_io (with_open_w (path_join mesh_dir ''elem3d.out'') (\<lambda>f.
        for_each (py_range 1 11) (\<lambda>i f.
          let n1 = i; n2 = i + 1; n3 = i + 2; n4 = i + 10
          in file_write f (format_d 8 n1 @ '' '' @ format_d 8 n2 @ '' '' @ format_d 8 n3 @ '' ''
                      @ format_d 8 n4 @ ''\<newline>''))
          (file_write f ''10\<newline>'')))
    (then_io (with_open_w (path_join mesh_dir ''aux3d.out'') (\<lambda>f.
        file_write (file_write (file_write (file_write f ''3\<newline>'') ''       1\<newline>'') ''      11\<newline>'')
          ''      21\<newline>''))
    (with_open_w (path_join mesh_dir ''depth.out'') (\<lambda>f.
        for_each (py_range 0 10) (\<lambda>i f.
          file_write f (''   ''
                   @ format_f 0 1 (float_sub (float_neg (float_literal 1000 1)) (float_of_int (i * 50)))
                   @ ''\<newline>''))
          f))))))"

text \<open>\<open>FesomDevModelRun._create_minimal_mesh_files(mesh_dir)\<close>, from its own source text.\<close>

definition create_minimal_mesh_files_dev :: "path \<Rightarrow> unit io" where
  "create_minimal_mesh_files_dev mesh_dir =
     then_io (with_open_w (path_join mesh_dir ''nod2d.out'') (\<lambda>f.
        for_each (py_range 1 11) (\<lambda>i f.
          let lon = float_add (float_literal 3000 1) (float_mul (float_of_int i) (float_literal 1 1));
              lat = float_add (float_literal 740 1) (float_mul (float_of_int i) (float_literal 5 2))
          in file_write f (format_d 8 i @ '' '' @ format_f 14 7 lon @ ''  '' @ format_f 14 7 lat
                      @ ''        0\<newline>''))
          (file_write f ''10\<newline>'')))
    (then_io (with_open_w (path_join mesh_dir ''elem2d.out'') (\<lambda>f.
        for_each (py_range 1 6) (\<lambda>i f.
          let n1 = i; n2 = i + 1; n3 = i + 2;
              f = file_write f (format_d 8 i @ '' '' @ format_d 8 n1 @ '' '' @ format_d 8 n2 @ ''\<newline>'')
          in file_write f (format_d 8 n2 @ '' '' @ format_d 8 n3 @ '' '' @ format_d 8 (i mod 8 + 1)
                      @ ''\<newline>''))
          (file_write f ''5\<newline>'')))
    (then_io (with_open_w (path_join mesh_dir ''nod3d.out'') (\<lambda>f.
        for_each (py_range 1 31) (\<lambda>i f.
          let lon = float_add (float_literal 3000 1)
                      (float_mul (float_of_int (i mod 10)) (float_literal 1 1));
              lat = float_add (float_literal 740 1)
                      (float_mul (float_of_int (i mod 10)) (float_literal 5 2));
              depth = float_mul (float_neg (float_literal 1000 1)) (float_of_int (i div 10))
          in file_write f (format_d 8 i @ '' '' @ format_f 14 7 lon @ ''  '' @ format_f 14 7 lat
                      @ '' '' @ format_f 14 7 depth @ ''        0\<newline>''))
          (file_write f ''30\<newline>'')))
    (then_io (with_open_w (path_join mesh_dir ''elem3d.out'') (\<lambda>f.
        for_each (py_range 1 11) (\<lambda>i f.
          let n1 = i; n2 = i + 1; n3 = i + 2; n4 = i + 10
          in file_write f (format_d 8 n1 @ '' '' @ format_d 8 n2 @ '' '' @ format_d 8 n3 @ '' ''
                      @ format_d 8 n4 @ ''\<newline>''))
          (file_write f ''10\<newline>'')))
    (then_io (with_open_w (path_join mesh_dir ''aux3d.out'') (\<lambda>f.
        file_write (file_write (file_write (file_write f ''3\<newline>'') ''       1\<newline>'') ''      11\<newline>'')
          ''      21\<newline>''))
    (with_open_w (path_join mesh_dir ''depth.out'') (\<lambda>f.
        for_each (py_range 0 10) (\<lambda>i f.
          file_write f (''   ''
                   @ format_f 0 1 (float_sub (float_neg (float_literal 1000 1)) (float_of_int (i * 50)))
                   @ ''\<newline>''))
          f))))))"

section \<open>The two model runs\<close>

subsection \<open>Directories\<close>





text \<open>
  \<open>shutil.rmtree(p)\<close> removes a directory with everything below it and refuses
  anything that is not a directory.
\<close>

definition remove_tree :: "filesystem \<Rightarrow> path \<Rightarrow> filesystem" where
  "remove_tree fs p = (\<lambda>q. if prefix p q then None else fs q)"

definition rmtree :: "path \<Rightarrow> unit io" where
  "rmtree p w =
     (case files w p of
        None \<Rightarrow> (Inl FileNotFoundError, w)
      | Some (File _) \<Rightarrow> (Inl NotADirectoryError, w)
      | Some Dir \<Rightarrow> (Inr (), w\<lparr>files := remove_tree (files w) p\<rparr>))"

text \<open>\<open>str(p)\<close> of an absolute path.\<close>

definition path_str :: "path \<Rightarrow> string" where
  "path_str p = (if p = [] then ''/'' else concat (map (\<lambda>c. CHR ''/'' # c) p))"

subsection \<open>Logging and external commands\<close>

definition logger_info :: "string \<Rightarrow> unit io" where
  "logger_info msg w = (Inr (), w\<lparr>log := log w @ [(''INFO'', msg)]\<rparr>)"

definition logger_error :: "string \<Rightarrow> unit io" where
  "logger_error msg w = (Inr (), w\<lparr>log := log w @ [(''ERROR'', msg)]\<rparr>)"

text \<open>
  What the operating system answers when a command is started: it ran and exited with a
  return code, standard output and standard error; it outlived the timeout; its binary was
  not found; or starting it failed otherwise.  The answer and the command's effect on the
  file system belong to the environment, so the runner is a parameter.
\<close>

datatype process_outcome =
    Exited int string string
  | TimedOut
  | CommandNotFound
  | StartFailed string

type_synonym runner = "string list \<Rightarrow> int \<Rightarrow> filesystem \<Rightarrow> process_outcome \<times> filesystem"

record completed_process =
  returncode :: int
  stdout :: string
  stderr :: string

text \<open>
  \<open>subprocess.run(args, capture_output=True, text=True, timeout=t, check=False)\<close>:
  a return code is handed back whatever it is; a timeout raises \<open>TimeoutExpired\<close>
  with the timeout it was given, a missing binary raises \<open>FileNotFoundError\<close>.
\<close>

definition subprocess_run :: "runner \<Rightarrow> string list \<Rightarrow> int \<Rightarrow> completed_process io" where
  "subprocess_run run args timeout w =
     (let w1 = w\<lparr>commands := commands w @ [(args, timeout)]\<rparr>
      in case run args timeout (files w1) of
           (Exited rc out err, fs') \<Rightarrow>
             (Inr \<lparr>returncode = rc, stdout = out, stderr = err\<rparr>, w1\<lparr>files := fs'\<rparr>)
         | (TimedOut, fs') \<Rightarrow> (Inl (TimeoutExpired timeout), w1\<lparr>files := fs'\<rparr>)
         | (CommandNotFound, fs') \<Rightarrow> (Inl FileNotFoundError, w1\<lparr>files := fs'\<rparr>)
         | (StartFailed msg, fs') \<Rightarrow> (Inl (ExternalError msg), w1\<lparr>files := fs'\<rparr>))"

text \<open>\<open>try: body except ...: handler\<close>; the handler decides what is raised instead.\<close>

definition try_except :: "'a io \<Rightarrow> (error \<Rightarrow> 'a io) \<Rightarrow> 'a io" where
  "try_except body handler w =
     (case body w of (Inl e, w') \<Rightarrow> handler e w' | (Inr x, w') \<Rightarrow> (Inr x, w'))"

subsection \<open>FESOM 2.6\<close>

text \<open>
  \<open>module_dir\<close> is \<open>Path(__file__).parent\<close>.  The fetcher
  \<open>fetch_and_extract\<close> and the manifest interpreter \<open>generate_stub_files\<close>
  belong to another package and are parameters.
\<close>

definition registry_path_2p6 :: "path \<Rightarrow> path" where
  "registry_path_2p6 module_dir = path_join module_dir ''registry.yaml''"



definition fetch_real_datadir_2p6 :: "(string \<Rightarrow> path \<Rightarrow> path io) \<Rightarrow> path \<Rightarrow> path io" where
  "fetch_real_datadir_2p6 fetch_and_extract module_dir =
     bind_io (fetch_and_extract ''fesom_2p6_pimesh.tar'' (registry_path_2p6 module_dir))
       (\<lambda>data_dir w.
          let inner_dir = path_join data_dir ''fesom_2p6_pimesh''
          in if path_exists (files w) inner_dir then (Inr inner_dir, w) else (Inr data_dir, w))"


subsection \<open>FESOM dev\<close>

text \<open>
  The dev run does not override \<open>registry_path\<close>, \<open>stub_manifest_path\<close> and
  \<open>cache_dir\<close>; the base class, which is not part of the package, supplies them, so
  they are parameters.
\<close>

definition MESH_GIT_REPO :: string where
  "MESH_GIT_REPO = ''https://gitlab.awi.de/fesom/pi''"


definition fetch_real_datadir_dev :: "(string \<Rightarrow> path \<Rightarrow> path io) \<Rightarrow> path \<Rightarrow> path io" where
  "fetch_real_datadir_dev fetch_and_extract registry_path =
     fetch_and_extract ''pi_uxarray.tar'' registry_path"



definition fetch_real_meshdir :: "runner \<Rightarrow> path \<Rightarrow> path io" where
  "fetch_real_meshdir run cache_dir w =
     (let mesh_dir = path_join cache_dir ''pi_mesh_git''
      in if path_exists (files w) mesh_dir \<and> path_exists (files w) (path_join mesh_dir ''.git'')
         then then_io (logger_info (''Using cached git mesh repository: '' @ path_str mesh_dir))
                (return_io mesh_dir) w
         else
           then_io (logger_info (''Cloning FESOM PI mesh from '' @ MESH_GIT_REPO @ ''...''))
          (then_io
             (try_except
                (bind_io (subprocess_run run [''git'', ''lfs'', ''version''] 10) (\<lambda>result.
                   if returncode result \<noteq> 0
                   then raise_io (RuntimeError
                          (''git-lfs is not installed. Please install git-lfs to download mesh data.\<newline>''
                           @ ''See: https://git-lfs.github.com/''))
                   else
                     then_io (\<lambda>w. if path_exists (files w) mesh_dir then rmtree mesh_dir w
                                   else (Inr (), w))
                    (bind_io
                       (subprocess_run run [''git'', ''clone'', MESH_GIT_REPO, path_str mesh_dir] 300)
                       (\<lambda>result.
                          if returncode result \<noteq> 0
                          then let error_msg =
                                     ''Failed to clone mesh repository from '' @ MESH_GIT_REPO
                                     @ ''\<newline>'' @ ''Git error: '' @ stderr result @ ''\<newline>''
                                     @ ''Git output: '' @ stdout result @ ''\<newline>''
                               in then_io (logger_error error_msg) (raise_io (RuntimeError error_msg))
                          else logger_info (''Mesh repository cloned to: '' @ path_str mesh_dir)))))
                (\<lambda>e. case e of
                        TimeoutExpired timeout \<Rightarrow>
                          raise_io (RuntimeError
                            (''Git clone timed out after '' @ str_int timeout @ '' seconds''))
                      | FileNotFoundError \<Rightarrow>
                          raise_io (RuntimeError ''git command not found. Please install git.'')
                      | _ \<Rightarrow> raise_io e))
             (return_io mesh_dir)) w)"

section \<open>Reading the mesh files back\<close>

text \<open>
  The properties of the files are stated on what a reader finds in them: the lines of the
  text, the blank-separated fields of a line (as \<open>line.split()\<close> gives them), and the
  number a field denotes, read as an exact decimal fraction.
\<close>

function split_lines :: "string \<Rightarrow> string list" where
  "split_lines s =
     (if s = [] then []
      else takeWhile (\<lambda>c. c \<noteq> CHR 0x0A) s
           # split_lines (drop 1 (dropWhile (\<lambda>c. c \<noteq> CHR 0x0A) s)))"
  by pat_completeness auto
termination
proof (relation "measure length")
  show "wf (measure length)" by simp
next
  fix s :: string
  assume "s \<noteq> []"
  then have "0 < length s" by simp
  moreover have "length (dropWhile (\<lambda>c. c \<noteq> CHR 0x0A) s) \<le> length s"
    by (rule length_dropWhile_le)
  ultimately have "length (drop 1 (dropWhile (\<lambda>c. c \<noteq> CHR 0x0A) s)) < length s"
    unfolding length_drop by arith
  then show "(drop 1 (dropWhile (\<lambda>c. c \<noteq> CHR 0x0A) s), s) \<in> measure length"
    unfolding in_measure .
qed

declare split_lines.simps [simp del]

fun fields_from :: "string \<Rightarrow> string \<Rightarrow> string list" where
  "fields_from cur [] = (if cur = [] then [] else [cur])"
| "fields_from cur (c # cs) =
     (if c = CHR '' '' then (if cur = [] then fields_from [] cs else cur # fields_from [] cs)
      else fields_from (cur @ [c]) cs)"

definition fields :: "string \<Rightarrow> string list" where
  "fields s = fields_from [] s"

definition is_digit :: "char \<Rightarrow> bool" where
  "is_digit c = (c \<in> set ''0123456789'')"

definition digits_value :: "string \<Rightarrow> int" where
  "digits_value ds = foldl (\<lambda>n c. 10 * n + (of_char c - 48)) 0 ds"

definition parse_decimal :: "string \<Rightarrow> rat option" where
  "parse_decimal s =
     (let neg = (take 1 s = ''-'');
          body = (if neg then drop 1 s else s);
          ip = takeWhile (\<lambda>c. c \<noteq> CHR ''.'') body;
          fp = drop 1 (dropWhile (\<lambda>c. c \<noteq> CHR ''.'') body)
      in if ip = [] \<or> \<not> list_all is_digit ip \<or> \<not> list_all is_digit fp then None
         else Some ((if neg then - 1 else 1)
                    * (of_int (digits_value (ip @ fp)) / 10 ^ length fp)))"

text \<open>The numbers on line \<open>k\<close> of a text (line 0 is the first); none when there is no such line.\<close>

definition line_numbers :: "string \<Rightarrow> int \<Rightarrow> rat option list" where
  "line_numbers t k =
     (case drop (nat k) (split_lines t) of
        [] \<Rightarrow> []
      | l # _ \<Rightarrow> map parse_decimal (fields l))"

section \<open>The texts of the six files\<close>

text \<open>
  The texts that the six \<open>with\<close> blocks of the synthesizer build, each as the list of
  its lines, every line ended by a newline.  They are written out here once; that the loops
  of the source compute exactly these texts is proved below.
\<close>

definition unlines :: "string list \<Rightarrow> string" where
  "unlines ls = concat (map (\<lambda>l. l @ ''\<newline>'') ls)"

definition nod2d_text :: string where
  "nod2d_text =
     unlines
       [''10'',
        ''       1    300.1000000      74.0500000        0'',
        ''       2    300.2000000      74.1000000        0'',
        ''       3    300.3000000      74.1500000        0'',
        ''       4    300.4000000      74.2000000        0'',
        ''       5    300.5000000      74.2500000        0'',
        ''       6    300.6000000      74.3000000        0'',
        ''       7    300.7000000      74.3500000        0'',
        ''       8    300.8000000      74.4000000        0'',
        ''       9    300.9000000      74.4500000        0'',
        ''      10    301.0000000      74.5000000        0'']"

definition elem2d_text :: string where
  "elem2d_text =
     unlines
       [''5'',
        ''       1        1        2'',
        ''       2        3        2'',
        ''       2        2        3'',
        ''       3        4        3'',
        ''       3        3        4'',
        ''       4        5        4'',
        ''       4        4        5'',
        ''       5        6        5'',
        ''       5        5        6'',
        ''       6        7        6'']"

definition nod3d_text :: string where
  "nod3d_text =
     unlines
       [''30'',
        ''       1    300.1000000      74.0500000     -0.0000000        0'',
        ''       2    300.2000000      74.1000000     -0.0000000        0'',
        ''       3    300.3000000      74.1500000     -0.0000000        0'',
        ''       4    300.4000000      74.2000000     -0.0000000        0'',
        ''       5    300.5000000      74.2500000     -0.0000000        0'',
        ''       6    300.6000000      74.3000000     -0.0000000        0'',
        ''       7    300.7000000      74.3500000     -0.0000000        0'',
        ''       8    300.8000000      74.4000000     -0.0000000        0'',
        ''       9    300.9000000      74.4500000     -0.0000000        0'',
        ''      10    300.0000000      74.0000000   -100.0000000        0'',
        ''      11    300.1000000      74.0500000   -100.0000000        0'',
        ''      12    300.2000000      74.1000000   -100.0000000        0'',
        ''      13    300.3000000      74.1500000   -100.0000000        0'',
        ''      14    300.4000000      74.2000000   -100.0000000        0'',
        ''      15    300.5000000      74.2500000   -100.0000000        0'',
        ''      16    300.6000000      74.3000000   -100.0000000        0'',
        ''      17    300.7000000      74.3500000   -100.0000000        0'',
        ''      18    300.8000000      74.4000000   -100.0000000        0'',
        ''      19    300.9000000      74.4500000   -100.0000000        0'',
        ''      20    300.0000000      74.0000000   -200.0000000        0'',
        ''      21    300.1000000      74.0500000   -200.0000000        0'',
        ''      22    300.2000000      74.1000000   -200.0000000        0'',
        ''      23    300.3000000      74.1500000   -200.0000000        0'',
        ''      24    300.4000000      74.2000000   -200.0000000        0'',
        ''      25    300.5000000      74.2500000   -200.0000000        0'',
        ''      26    300.6000000      74.3000000   -200.0000000        0'',
        ''      27    300.7000000      74.3500000   -200.0000000        0'',
        ''      28    300.8000000      74.4000000   -200.0000000        0'',
        ''      29    300.9000000      74.4500000   -200.0000000        0'',
        ''      30    300.0000000      74.0000000   -300.0000000        0'']"

definition elem3d_text :: string where
  "elem3d_text =
     unlines
       [''10'',
        ''       1        2        3       11'',
        ''       2        3        4       12'',
        ''       3        4        5       13'',
        ''       4        5        6       14'',
        ''       5        6        7       15'',
        ''       6        7        8       16'',
        ''       7        8        9       17'',
        ''       8        9       10       18'',
        ''       9       10       11       19'',
        ''      10       11       12       20'']"

definition aux3d_text :: string where
  "aux3d_text =
     unlines
       [''3'',
        ''       1'',
        ''      11'',
        ''      21'']"

definition depth_text :: string where
  "depth_text =
     unlines
       [''   -100.0'',
        ''   -150.0'',
        ''   -200.0'',
        ''   -250.0'',
        ''   -300.0'',
        ''   -350.0'',
        ''   -400.0'',
        ''   -450.0'',
        ''   -500.0'',
        ''   -550.0'']"

text \<open>The file system after the six texts were stored in \<open>mesh_dir\<close>.\<close>

definition with_mesh_files :: "path \<Rightarrow> filesystem \<Rightarrow> filesystem" where
  "with_mesh_files mesh_dir fs =
     fs(path_join mesh_dir ''nod2d.out'' \<mapsto> File nod2d_text,
        path_join mesh_dir ''elem2d.out'' \<mapsto> File elem2d_text,
        path_join mesh_dir ''nod3d.out'' \<mapsto> File nod3d_text,
        path_join mesh_dir ''elem3d.out'' \<mapsto> File elem3d_text,
        path_join mesh_dir ''aux3d.out'' \<mapsto> File aux3d_text,
        path_join mesh_dir ''depth.out'' \<mapsto> File depth_text)"

definition mesh_file_names :: "string list" where
  "mesh_file_names =
     [''nod2d.out'', ''elem2d.out'', ''nod3d.out'', ''elem3d.out'', ''aux3d.out'', ''depth.out'']"

section \<open>Notions used in the statements\<close>

text \<open>Running a statement \<open>n\<close> times in a row; an exception ends the run.\<close>

fun repeat_io :: "nat \<Rightarrow> unit io \<Rightarrow> unit io" where
  "repeat_io 0 m = return_io ()"
| "repeat_io (Suc n) m = then_io m (repeat_io n m)"

text \<open>A directory that exists and has nothing below it.\<close>

definition empty_dir :: "filesystem \<Rightarrow> path \<Rightarrow> bool" where
  "empty_dir fs d = (fs d = Some Dir \<and> (\<forall>p. strict_prefix d p \<longrightarrow> fs p = None))"

text \<open>
  A target the synthesizer can write to: an existing directory in which none of the six file
  names is taken by a directory.  An empty directory is one.
\<close>

definition mesh_dir_ready :: "filesystem \<Rightarrow> path \<Rightarrow> bool" where
  "mesh_dir_ready fs d =
     (fs d = Some Dir \<and> list_all (\<lambda>n. fs (path_join d n) \<noteq> Some Dir) mesh_file_names)"

text \<open>The text of a regular file, and the longitude and latitude fields of a node record.\<close>

definition file_text :: "world \<Rightarrow> path \<Rightarrow> string" where
  "file_text w p = (case files w p of Some (File t) \<Rightarrow> t | _ \<Rightarrow> [])"

definition lon_lat :: "string \<Rightarrow> int \<Rightarrow> rat option list" where
  "lon_lat t k = take 2 (drop 1 (line_numbers t k))"


section \<open>Example worlds and collaborators\<close>

text \<open>Concrete inputs on which the theorems below are exercised.\<close>

definition example_world :: world where
  "example_world = \<lparr>files = [[] \<mapsto> Dir, [''mesh''] \<mapsto> Dir], commands = [], log = []\<rparr>"

definition cache_world :: world where
  "cache_world = \<lparr>files = [[] \<mapsto> Dir, [''cache''] \<mapsto> Dir], commands = [], log = []\<rparr>"

definition cloned_world :: world where
  "cloned_world =
     \<lparr>files = [[] \<mapsto> Dir, [''cache''] \<mapsto> Dir, [''cache'', ''pi_mesh_git''] \<mapsto> Dir,
               [''cache'', ''pi_mesh_git'', ''.git''] \<mapsto> Dir],
      commands = [], log = []\<rparr>"

definition unpacked_world :: world where
  "unpacked_world =
     \<lparr>files = [[] \<mapsto> Dir, [''data''] \<mapsto> Dir, [''data'', ''fesom_2p6_pimesh''] \<mapsto> Dir],
      commands = [], log = []\<rparr>"



definition cached_fetcher :: "string \<Rightarrow> path \<Rightarrow> path io" where
  "cached_fetcher archive registry = return_io [''data'']"


definition failing_fetcher :: "string \<Rightarrow> path \<Rightarrow> path io" where
  "failing_fetcher archive registry = raise_io (ExternalError ''download failed'')"

text \<open>Runners: git-lfs answers, and the clone fails, times out, or git is missing altogether.\<close>

definition runner_clone_fails :: runner where
  "runner_clone_fails args timeout fs =
     (if args = [''git'', ''lfs'', ''version''] then (Exited 0 ''git-lfs/3.4.0'' [], fs)
      else (Exited 128 ''Cloning'' ''fatal: repository not found'', fs))"

definition runner_clone_times_out :: runner where
  "runner_clone_times_out args timeout fs =
     (if args = [''git'', ''lfs'', ''version''] then (Exited 0 ''git-lfs/3.4.0'' [], fs)
      else (TimedOut, fs))"

definition runner_probe_times_out :: runner where
  "runner_probe_times_out args timeout fs = (TimedOut, fs)"

definition runner_no_git :: runner where
  "runner_no_git args timeout fs = (CommandNotFound, fs)"

definition runner_no_lfs :: runner where
  "runner_no_lfs args timeout fs = (Exited 1 [] ''git: lfs is not a git command'', fs)"

section \<open>The synthesizer computes the six texts\<close>

subsection \<open>The formatted numbers\<close>

text \<open>
  Every number the loops format, evaluated by the kernel from the floating-point
  definitions: the longitudes and latitudes for the indices \<open>0..10\<close>, the four depths of
  \<open>nod3d.out\<close>, the ten depths of \<open>depth.out\<close>, and the integers.
\<close>

lemma format_lon:
  "format_f 14 7 (float_add (float_literal 3000 1) (float_mul (float_of_int 0) (float_literal 1 1)))
     = ''   300.0000000''"
  "format_f 14 7 (float_add (float_literal 3000 1) (float_mul (float_of_int 1) (float_literal 1 1)))
     = ''   300.1000000''"
  "format_f 14 7 (float_add (float_literal 3000 1) (float_mul (float_of_int 2) (float_literal 1 1)))
     = ''   300.2000000''"
  "format_f 14 7 (float_add (float_literal 3000 1) (float_mul (float_of_int 3) (float_literal 1 1)))
     = ''   300.3000000''"
  "format_f 14 7 (float_add (float_literal 3000 1) (float_mul (float_of_int 4) (float_literal 1 1)))
     = ''   300.4000000''"
  "format_f 14 7 (float_add (float_literal 3000 1) (float_mul (float_of_int 5) (float_literal 1 1)))
     = ''   300.5000000''"
  "format_f 14 7 (float_add (float_literal 3000 1) (float_mul (float_of_int 6) (float_literal 1 1)))
     = ''   300.6000000''"
  "format_f 14 7 (float_add (float_literal 3000 1) (float_mul (float_of_int 7) (float_literal 1 1)))
     = ''   300.7000000''"
  "format_f 14 7 (float_add (float_literal 3000 1) (float_mul (float_of_int 8) (float_literal 1 1)))
     = ''   300.8000000''"
  "format_f 14 7 (float_add (float_literal 3000 1) (float_mul (float_of_int 9) (float_literal 1 1)))
     = ''   300.9000000''"
  "format_f 14 7 (float_add (float_literal 3000 1) (float_mul (float_of_int 10) (float_literal 1 1)))
     = ''   301.0000000''"
  by code_simp+

lemma format_lat:
  "format_f 14 7 (float_add (float_literal 740 1) (float_mul (float_of_int 0) (float_literal 5 2)))
     = ''    74.0000000''"
  "format_f 14 7 (float_add (float_literal 740 1) (float_mul (float_of_int 1) (float_literal 5 2)))
     = ''    74.0500000''"
  "format_f 14 7 (float_add (float_literal 740 1) (float_mul (float_of_int 2) (float_literal 5 2)))
     = ''    74.1000000''"
  "format_f 14 7 (float_add (float_literal 740 1) (float_mul (float_of_int 3) (float_literal 5 2)))
     = ''    74.1500000''"
  "format_f 14 7 (float_add (float_literal 740 1) (float_mul (float_of_int 4) (float_literal 5 2)))
     = ''    74.2000000''"
  "format_f 14 7 (float_add (float_literal 740 1) (float_mul (float_of_int 5) (float_literal 5 2)))
     = ''    74.2500000''"
  "format_f 14 7 (float_add (float_literal 740 1) (float_mul (float_of_int 6) (float_literal 5 2)))
     = ''    74.3000000''"
  "format_f 14 7 (float_add (float_literal 740 1) (float_mul (float_of_int 7) (float_literal 5 2)))
     = ''    74.3500000''"
  "format_f 14 7 (float_add (float_literal 740 1) (float_mul (float_of_int 8) (float_literal 5 2)))
     = ''    74.4000000''"
  "format_f 14 7 (float_add (float_literal 740 1) (float_mul (float_of_int 9) (float_literal 5 2)))
     = ''    74.4500000''"
  "format_f 14 7 (float_add (float_literal 740 1) (float_mul (float_of_int 10) (float_literal 5 2)))
     = ''    74.5000000''"
  by code_simp+

lemma format_depth:
  "format_f 14 7 (float_mul (float_neg (float_literal 1000 1)) (float_of_int 0))
     = ''    -0.0000000''"
  "format_f 14 7 (float_mul (float_neg (float_literal 1000 1)) (float_of_int 1))
     = ''  -100.0000000''"
  "format_f 14 7 (float_mul (float_neg (float_literal 1000 1)) (float_of_int 2))
     = ''  -200.0000000''"
  "format_f 14 7 (float_mul (float_neg (float_literal 1000 1)) (float_of_int 3))
     = ''  -300.0000000''"
  by code_simp+

lemma format_depth_out:
  "format_f 0 1 (float_sub (float_neg (float_literal 1000 1)) (float_of_int 0))
     = ''-100.0''"
  "format_f 0 1 (float_sub (float_neg (float_literal 1000 1)) (float_of_int 50))
     = ''-150.0''"
  "format_f 0 1 (float_sub (float_neg (float_literal 1000 1)) (float_of_int 100))
     = ''-200.0''"
  "format_f 0 1 (float_sub (float_neg (float_literal 1000 1)) (float_of_int 150))
     = ''-250.0''"
  "format_f 0 1 (float_sub (float_neg (float_literal 1000 1)) (float_of_int 200))
     = ''-300.0''"
  "format_f 0 1 (float_sub (float_neg (float_literal 1000 1)) (float_of_int 250))
     = ''-350.0''"
  "format_f 0 1 (float_sub (float_neg (float_literal 1000 1)) (float_of_int 300))
     = ''-400.0''"
  "format_f 0 1 (float_sub (float_neg (float_literal 1000 1)) (float_of_int 350))
     = ''-450.0''"
  "format_f 0 1 (float_sub (float_neg (float_literal 1000 1)) (float_of_int 400))
     = ''-500.0''"
  "format_f 0 1 (float_sub (float_neg (float_literal 1000 1)) (float_of_int 450))
     = ''-550.0''"
  by code_simp+

lemma format_index:
  "format_d 8 1 = ''       1''"
  "format_d 8 2 = ''       2''"
  "format_d 8 3 = ''       3''"
  "format_d 8 4 = ''       4''"
  "format_d 8 5 = ''       5''"
  "format_d 8 6 = ''       6''"
  "format_d 8 7 = ''       7''"
  "format_d 8 8 = ''       8''"
  "format_d 8 9 = ''       9''"
  "format_d 8 10 = ''      10''"
  "format_d 8 11 = ''      11''"
  "format_d 8 12 = ''      12''"
  "format_d 8 13 = ''      13''"
  "format_d 8 14 = ''      14''"
  "format_d 8 15 = ''      15''"
  "format_d 8 16 = ''      16''"
  "format_d 8 17 = ''      17''"
  "format_d 8 18 = ''      18''"
  "format_d 8 19 = ''      19''"
  "format_d 8 20 = ''      20''"
  "format_d 8 21 = ''      21''"
  "format_d 8 22 = ''      22''"
  "format_d 8 23 = ''      23''"
  "format_d 8 24 = ''      24''"
  "format_d 8 25 = ''      25''"
  "format_d 8 26 = ''      26''"
  "format_d 8 27 = ''      27''"
  "format_d 8 28 = ''      28''"
  "format_d 8 29 = ''      29''"
  "format_d 8 30 = ''      30''"
  by code_simp+

lemma ranges:
  "py_range 1 11 = [1, 2, 3, 4, 5, 6, 7, 8, 9, 10]"
  "py_range 1 6 = [1, 2, 3, 4, 5]"
  "py_range 1 31 = [1, 2, 3, 4, 5, 6, 7, 8, 9, 10, 11, 12, 13, 14, 15, 16, 17, 18, 19, 20,
                    21, 22, 23, 24, 25, 26, 27, 28, 29, 30]"
  "py_range 0 10 = [0, 1, 2, 3, 4, 5, 6, 7, 8, 9]"
  by code_simp+

subsection \<open>The loops\<close>

lemma nod2d_loop:
  "for_each (py_range 1 11) (\<lambda>i f.
      let lon = float_add (float_literal 3000 1) (float_mul (float_of_int i) (float_literal 1 1));
          lat = float_add (float_literal 740 1) (float_mul (float_of_int i) (float_literal 5 2))
      in file_write f (format_d 8 i @ '' '' @ format_f 14 7 lon @ ''  '' @ format_f 14 7 lat
                  @ ''        0\<newline>''))
      (file_write [] ''10\<newline>'') = nod2d_text"
  by (simp add: ranges for_each_def file_write_def format_lon format_lat format_index
      nod2d_text_def unlines_def del: One_nat_def)

lemma elem2d_loop:
  "for_each (py_range 1 6) (\<lambda>i f.
      let n1 = i; n2 = i + 1; n3 = i + 2;
          f = file_write f (format_d 8 i @ '' '' @ format_d 8 n1 @ '' '' @ format_d 8 n2 @ ''\<newline>'')
      in file_write f (format_d 8 n2 @ '' '' @ format_d 8 n3 @ '' '' @ format_d 8 (i mod 8 + 1)
                  @ ''\<newline>''))
      (file_write [] ''5\<newline>'') = elem2d_text"
  by (simp add: ranges for_each_def file_write_def format_index elem2d_text_def unlines_def)

lemma nod3d_loop:
  "for_each (py_range 1 31) (\<lambda>i f.
      let lon = float_add (float_literal 3000 1)
                  (float_mul (float_of_int (i mod 10)) (float_literal 1 1));
          lat = float_add (float_literal 740 1)
                  (float_mul (float_of_int (i mod 10)) (float_literal 5 2));
          depth = float_mul (float_neg (float_literal 1000 1)) (float_of_int (i div 10))
      in file_write f (format_d 8 i @ '' '' @ format_f 14 7 lon @ ''  '' @ format_f 14 7 lat
                  @ '' '' @ format_f 14 7 depth @ ''        0\<newline>''))
      (file_write [] ''30\<newline>'') = nod3d_text"
  by (simp add: ranges for_each_def file_write_def format_lon format_lat format_depth
      format_index nod3d_text_def unlines_def del: One_nat_def)

lemma elem3d_loop:
  "for_each (py_range 1 11) (\<lambda>i f.
      let n1 = i; n2 = i + 1; n3 = i + 2; n4 = i + 10
      in file_write f (format_d 8 n1 @ '' '' @ format_d 8 n2 @ '' '' @ format_d 8 n3 @ '' ''
                  @ format_d 8 n4 @ ''\<newline>''))
      (file_write [] ''10\<newline>'') = elem3d_text"
  by (simp add: ranges for_each_def file_write_def format_index elem3d_text_def unlines_def)

lemma aux3d_writes:
  "file_write (file_write (file_write (file_write [] ''3\<newline>'') ''       1\<newline>'') ''      11\<newline>'')
     ''      21\<newline>'' = aux3d_text"
  by (simp add: file_write_def aux3d_text_def unlines_def)

lemma depth_loop:
  "for_each (py_range 0 10) (\<lambda>i f.
      file_write f (''   ''
               @ format_f 0 1 (float_sub (float_neg (float_literal 1000 1)) (float_of_int (i * 50)))
               @ ''\<newline>''))
      [] = depth_text"
  by (simp add: ranges for_each_def file_write_def format_depth_out depth_text_def unlines_def del: One_nat_def)

text \<open>
  So the synthesizer is six stores of fixed texts, and the dev run's copy is the same
  function.
\<close>

lemma create_2p6_stores:
  "create_minimal_mesh_files_2p6 mesh_dir =
     then_io (store_text (path_join mesh_dir ''nod2d.out'') nod2d_text)
    (then_io (store_text (path_join mesh_dir ''elem2d.out'') elem2d_text)
    (then_io (store_text (path_join mesh_dir ''nod3d.out'') nod3d_text)
    (then_io (store_text (path_join mesh_dir ''elem3d.out'') elem3d_text)
    (then_io (store_text (path_join mesh_dir ''aux3d.out'') aux3d_text)
             (store_text (path_join mesh_dir ''depth.out'') depth_text)))))"
  unfolding create_minimal_mesh_files_2p6_def with_open_w_def
    nod2d_loop elem2d_loop nod3d_loop elem3d_loop aux3d_writes depth_loop
  by (rule refl)

lemma create_dev_is_2p6:
  "create_minimal_mesh_files_dev = create_minimal_mesh_files_2p6"
  unfolding create_minimal_mesh_files_dev_def create_minimal_mesh_files_2p6_def
  by (rule refl)

section \<open>What a successful run leaves behind\<close>

lemma parent_join [simp]: "parent (path_join d n) = d"
  by (simp add: parent_def path_join_def)

lemma path_join_neq [simp]: "path_join d n \<noteq> d"
  by (simp add: path_join_def)

lemma path_join_neq' [simp]: "d \<noteq> path_join d n"
  by (simp add: path_join_def)

lemma path_join_inject [simp]: "path_join d n = path_join d' m \<longleftrightarrow> d = d' \<and> n = m"
  by (simp add: path_join_def)

lemma then_io_Inr:
  "then_io m k w = (Inr x, w') \<longleftrightarrow> (\<exists>w1. m w = (Inr (), w1) \<and> k w1 = (Inr x, w'))"
  by (auto simp: then_io_def bind_io_def split: prod.splits sum.splits)

lemma bind_io_Inr:
  "bind_io m k w = (Inr x, w') \<longleftrightarrow> (\<exists>y w1. m w = (Inr y, w1) \<and> k y w1 = (Inr x, w'))"
  by (auto simp: bind_io_def split: prod.splits sum.splits)

lemma store_text_Inr:
  "store_text p t w = (Inr u, w') \<longleftrightarrow>
     files w (parent p) = Some Dir \<and> files w p \<noteq> Some Dir
     \<and> w' = w\<lparr>files := (files w)(p \<mapsto> File t)\<rparr>"
  by (auto simp: store_text_def split: option.splits node.splits)

lemma create_2p6_Inr:
  "create_minimal_mesh_files_2p6 d w = (Inr u, w') \<longleftrightarrow>
     files w d = Some Dir
     \<and> list_all (\<lambda>n. files w (path_join d n) \<noteq> Some Dir) mesh_file_names
     \<and> w' = w\<lparr>files := with_mesh_files d (files w)\<rparr>"
  by (auto simp: create_2p6_stores then_io_Inr store_text_Inr mesh_file_names_def
      with_mesh_files_def)

lemma with_mesh_files_idem: "with_mesh_files d (with_mesh_files d fs) = with_mesh_files d fs"
  by (rule ext) (simp add: with_mesh_files_def)

lemma with_mesh_files_dir: "with_mesh_files d fs d = fs d"
  by (simp add: with_mesh_files_def)

lemma with_mesh_files_not_dir:
  "list_all (\<lambda>n. with_mesh_files d fs (path_join d n) \<noteq> Some Dir) mesh_file_names"
  by (simp add: with_mesh_files_def mesh_file_names_def)

lemma create_2p6_again:
  assumes "create_minimal_mesh_files_2p6 d w = (Inr (), w')"
  shows "create_minimal_mesh_files_2p6 d w' = (Inr (), w')"
  using assms
  by (simp add: create_2p6_Inr with_mesh_files_idem with_mesh_files_dir with_mesh_files_not_dir)

lemma empty_dir_children:
  assumes "empty_dir fs d"
  shows "fs d = Some Dir" and "fs (path_join d n) = None"
proof -
  show "fs d = Some Dir" using assms by (simp add: empty_dir_def)
  have "strict_prefix d (path_join d n)" by (simp add: path_join_def strict_prefix_def)
  then show "fs (path_join d n) = None" using assms by (simp add: empty_dir_def)
qed

lemma create_2p6_empty_dir:
  assumes "empty_dir (files w) d"
  shows "create_minimal_mesh_files_2p6 d w = (Inr (), w\<lparr>files := with_mesh_files d (files w)\<rparr>)"
  using empty_dir_children [OF assms]
  by (simp add: create_2p6_Inr mesh_file_names_def)

lemma create_ready:
  assumes "mesh_dir_ready (files w) d"
  shows "create_minimal_mesh_files_2p6 d w = (Inr (), w\<lparr>files := with_mesh_files d (files w)\<rparr>)"
    and "create_minimal_mesh_files_dev d w = (Inr (), w\<lparr>files := with_mesh_files d (files w)\<rparr>)"
  using assms by (simp_all add: create_dev_is_2p6 create_2p6_Inr mesh_dir_ready_def)

lemma example_world_ready: "mesh_dir_ready (files example_world) [''mesh'']"
  by (simp add: mesh_dir_ready_def example_world_def mesh_file_names_def path_join_def)

lemma repeat_io_fixed:
  assumes "m w' = (Inr (), w')"
  shows "repeat_io n m w' = (Inr (), w')"
  by (induction n) (simp_all add: return_io_def then_io_def bind_io_def assms)

lemma repeat_io_once:
  assumes "m w = (Inr (), w')" and "m w' = (Inr (), w')" and "0 < n"
  shows "repeat_io n m w = (Inr (), w')"
proof (cases n)
  case 0
  with assms show ?thesis by simp
next
  case (Suc k)
  then show ?thesis
    using assms(1) repeat_io_fixed [of m w' k, OF assms(2)]
    by (simp add: then_io_def bind_io_def)
qed

text \<open>
  C7.  Mesh-file generation is idempotent and deterministic: on an empty target directory,
  running the synthesizer any positive number of times in a row ends in the same world as
  running it once, namely the directory with the six files and their fixed texts.  This
  holds for both copies of the synthesizer.
\<close>

theorem mesh_generation_idempotent:
  assumes "empty_dir (files w) mesh_dir" and "0 < n"
  shows "repeat_io n (create_minimal_mesh_files_2p6 mesh_dir) w
           = create_minimal_mesh_files_2p6 mesh_dir w
         \<and> create_minimal_mesh_files_2p6 mesh_dir w
           = (Inr (), w\<lparr>files := with_mesh_files mesh_dir (files w)\<rparr>)
         \<and> repeat_io n (create_minimal_mesh_files_dev mesh_dir) w
           = create_minimal_mesh_files_dev mesh_dir w
         \<and> create_minimal_mesh_files_dev mesh_dir w
           = (Inr (), w\<lparr>files := with_mesh_files mesh_dir (files w)\<rparr>)"
proof -
  let ?w' = "w\<lparr>files := with_mesh_files mesh_dir (files w)\<rparr>"
  have once: "create_minimal_mesh_files_2p6 mesh_dir w = (Inr (), ?w')"
    by (rule create_2p6_empty_dir [OF assms(1)])
  have again: "create_minimal_mesh_files_2p6 mesh_dir ?w' = (Inr (), ?w')"
    by (rule create_2p6_again [OF once])
  have "repeat_io n (create_minimal_mesh_files_2p6 mesh_dir) w = (Inr (), ?w')"
    using once again assms(2) by (rule repeat_io_once)
  with once show ?thesis
    by (simp add: create_dev_is_2p6)
qed

lemma example_world_empty_dir: "empty_dir (files example_world) [''mesh'']"
  by (auto simp: empty_dir_def example_world_def)

theorem mesh_generation_idempotent_witness:
  "empty_dir (files example_world) [''mesh'']
   \<and> repeat_io 3 (create_minimal_mesh_files_2p6 [''mesh'']) example_world
       = (Inr (), example_world\<lparr>files := with_mesh_files [''mesh''] (files example_world)\<rparr>)
   \<and> create_minimal_mesh_files_2p6 [''mesh''] example_world
       = (Inr (), example_world\<lparr>files := with_mesh_files [''mesh''] (files example_world)\<rparr>)"
  using mesh_generation_idempotent [OF example_world_empty_dir, of 3]
  by (simp add: example_world_empty_dir)

text \<open>
  C8.  The two copies of the synthesizer are extensionally equal: for every target
  directory and every world they give the same result and leave the same world, so the same
  six files with the same texts.
\<close>

theorem mesh_synthesizers_equal:
  "create_minimal_mesh_files_dev mesh_dir w = create_minimal_mesh_files_2p6 mesh_dir w"
  by (simp add: create_dev_is_2p6)

section \<open>The contents of the node and element files\<close>

subsection \<open>Lines and records of the texts\<close>

lemma split_lines_Nil: "split_lines [] = []"
  by (simp add: split_lines.simps)

lemma split_lines_line:
  assumes "CHR 0x0A \<notin> set l"
  shows "split_lines (l @ CHR 0x0A # rest) = l # split_lines rest"
proof -
  have a: "takeWhile (\<lambda>c. c \<noteq> CHR 0x0A) (l @ CHR 0x0A # rest) = l"
    using assms by (induction l) auto
  have b: "dropWhile (\<lambda>c. c \<noteq> CHR 0x0A) (l @ CHR 0x0A # rest) = CHR 0x0A # rest"
    using assms by (induction l) auto
  show ?thesis
    by (subst split_lines.simps) (simp add: a b)
qed

lemma split_lines_unlines:
  "\<forall>l\<in>set ls. CHR 0x0A \<notin> set l \<Longrightarrow> split_lines (unlines ls) = ls"
  by (induction ls) (simp_all add: unlines_def split_lines_Nil split_lines_line)

lemma nod2d_lines:
  "split_lines nod2d_text =
     [''10'',
      ''       1    300.1000000      74.0500000        0'',
      ''       2    300.2000000      74.1000000        0'',
      ''       3    300.3000000      74.1500000        0'',
      ''       4    300.4000000      74.2000000        0'',
      ''       5    300.5000000      74.2500000        0'',
      ''       6    300.6000000      74.3000000        0'',
      ''       7    300.7000000      74.3500000        0'',
      ''       8    300.8000000      74.4000000        0'',
      ''       9    300.9000000      74.4500000        0'',
      ''      10    301.0000000      74.5000000        0'']"
  unfolding nod2d_text_def by (subst split_lines_unlines) simp_all

lemma int_1_10: "{1..10::int} = {1, 2, 3, 4, 5, 6, 7, 8, 9, 10}"
proof -
  have "{1..10::int} = set (py_range 1 11)"
    by (simp add: py_range_def)
  also have "\<dots> = {1, 2, 3, 4, 5, 6, 7, 8, 9, 10}"
    unfolding ranges by simp
  finally show ?thesis .
qed

lemma nod2d_records:
  assumes "i \<in> {1..10}"
  shows "line_numbers nod2d_text i
           = [Some (of_int i), Some (300 + of_int i / 10), Some (74 + of_int i / 20), Some 0]"
  using assms unfolding int_1_10
  by (elim insertE emptyE)
     (simp_all add: line_numbers_def nod2d_lines fields_def parse_decimal_def is_digit_def
        digits_value_def)

text \<open>
  C6.  On every target that is ready (an existing directory where none of the six names is a
  directory) each of the two copies of the synthesizer succeeds and leaves \<open>nod2d.out\<close>
  with the header line \<open>10\<close> followed by exactly ten records; the record on line
  \<open>i\<close>, for every \<open>i\<close> from 1 to 10, reads as the index \<open>i\<close>, the longitude
  \<open>300 + i / 10\<close>, the latitude \<open>74 + i / 20\<close> (both exactly, as decimal fractions)
  and the flag 0.
\<close>

theorem nod2d_contents:
  assumes "mesh_dir_ready (files w) mesh_dir"
  shows "\<forall>create\<in>{create_minimal_mesh_files_2p6, create_minimal_mesh_files_dev}.
           fst (create mesh_dir w) = Inr ()
           \<and> (\<exists>t. files (snd (create mesh_dir w)) (path_join mesh_dir ''nod2d.out'')
                      = Some (File t)
                  \<and> take 1 (split_lines t) = [''10'']
                  \<and> length (split_lines t) = 11
                  \<and> (\<forall>i\<in>{1..10}. line_numbers t i
                        = [Some (of_int i), Some (300 + of_int i / 10),
                           Some (74 + of_int i / 20), Some 0]))"
proof -
  have "take 1 (split_lines nod2d_text) = [''10'']"
    and "length (split_lines nod2d_text) = 11"
    by (simp_all add: nod2d_lines)
  then have "\<exists>t. with_mesh_files mesh_dir (files w) (path_join mesh_dir ''nod2d.out'')
                      = Some (File t)
                  \<and> take 1 (split_lines t) = [''10'']
                  \<and> length (split_lines t) = 11
                  \<and> (\<forall>i\<in>{1..10}. line_numbers t i
                        = [Some (of_int i), Some (300 + of_int i / 10),
                           Some (74 + of_int i / 20), Some 0])"
    using nod2d_records by (intro exI [where x = nod2d_text]) (simp add: with_mesh_files_def)
  then show ?thesis
    by (simp add: create_ready [OF assms])
qed

theorem nod2d_contents_witness:
  "mesh_dir_ready (files example_world) [''mesh'']
   \<and> fst (create_minimal_mesh_files_2p6 [''mesh''] example_world) = Inr ()
   \<and> line_numbers (file_text (snd (create_minimal_mesh_files_2p6 [''mesh''] example_world))
        (path_join [''mesh''] ''nod2d.out'')) 3
       = [Some 3, Some (3003 / 10), Some (1483 / 20), Some 0]
   \<and> fst (create_minimal_mesh_files_dev [''mesh''] example_world) = Inr ()
   \<and> line_numbers (file_text (snd (create_minimal_mesh_files_dev [''mesh''] example_world))
        (path_join [''mesh''] ''nod2d.out'')) 7
       = [Some 7, Some (3007 / 10), Some (1487 / 20), Some 0]"
proof -
  note all = nod2d_contents [OF example_world_ready]
  from bspec [OF all, of create_minimal_mesh_files_2p6]
  obtain t where ok1: "fst (create_minimal_mesh_files_2p6 [''mesh''] example_world) = Inr ()"
    and t: "files (snd (create_minimal_mesh_files_2p6 [''mesh''] example_world))
              (path_join [''mesh''] ''nod2d.out'') = Some (File t)"
    and r: "\<forall>i\<in>{1..10}. line_numbers t i
              = [Some (of_int i), Some (300 + of_int i / 10), Some (74 + of_int i / 20), Some 0]"
    by auto
  from bspec [OF all, of create_minimal_mesh_files_dev]
  obtain u where ok2: "fst (create_minimal_mesh_files_dev [''mesh''] example_world) = Inr ()"
    and u: "files (snd (create_minimal_mesh_files_dev [''mesh''] example_world))
              (path_join [''mesh''] ''nod2d.out'') = Some (File u)"
    and q: "\<forall>i\<in>{1..10}. line_numbers u i
              = [Some (of_int i), Some (300 + of_int i / 10), Some (74 + of_int i / 20), Some 0]"
    by auto
  from bspec [OF r, of 3] have "line_numbers t 3 = [Some 3, Some (3003 / 10), Some (1483 / 20), Some 0]"
    by simp
  moreover from bspec [OF q, of 7]
  have "line_numbers u 7 = [Some 7, Some (3007 / 10), Some (1487 / 20), Some 0]"
    by simp
  ultimately show ?thesis
    using ok1 ok2 t u example_world_ready by (simp add: file_text_def)
qed

lemma elem2d_lines:
  "split_lines elem2d_text =
     [''5'',
      ''       1        1        2'', ''       2        3        2'',
      ''       2        2        3'', ''       3        4        3'',
      ''       3        3        4'', ''       4        5        4'',
      ''       4        4        5'', ''       5        6        5'',
      ''       5        5        6'', ''       6        7        6'']"
  unfolding elem2d_text_def by (subst split_lines_unlines) simp_all

lemma int_1_5: "{1..5::int} = {1, 2, 3, 4, 5}"
proof -
  have "{1..5::int} = set (py_range 1 6)"
    by (simp add: py_range_def)
  also have "\<dots> = {1, 2, 3, 4, 5}"
    unfolding ranges by simp
  finally show ?thesis .
qed

lemma elem2d_records:
  assumes "i \<in> {1..5}"
  shows "i mod 8 + 1 = i + 1"
    and "take 1 (drop (nat (2 * i)) (split_lines elem2d_text))
           = [format_d 8 (i + 1) @ '' '' @ format_d 8 (i + 2) @ '' '' @ format_d 8 (i mod 8 + 1)]"
    and "line_numbers elem2d_text (2 * i)
           = [Some (of_int (i + 1)), Some (of_int (i + 2)), Some (of_int (i + 1))]"
  using assms unfolding int_1_5
  by (elim insertE emptyE;
      simp add: line_numbers_def elem2d_lines fields_def parse_decimal_def is_digit_def
        digits_value_def format_index)+

text \<open>
  C10.  In \<open>elem2d.out\<close> the expression \<open>(i mod 8) + 1\<close> never wraps.  On every ready
  target each of the two copies of the synthesizer succeeds and leaves \<open>elem2d.out\<close> with
  the header \<open>5\<close> and ten more lines; for every record index \<open>i\<close> from 1 to 5,
  \<open>(i mod 8) + 1\<close> equals \<open>i + 1\<close>, the second line of record \<open>i\<close> (line \<open>2 i\<close> of
  the file) is the text the source formats from \<open>i + 1\<close>, \<open>i + 2\<close> and
  \<open>(i mod 8) + 1\<close>, and it reads \<open>i + 1\<close>, \<open>i + 2\<close>, \<open>i + 1\<close>: its third number
  repeats its first.
\<close>

theorem elem2d_never_wraps:
  assumes "mesh_dir_ready (files w) mesh_dir"
  shows "\<forall>create\<in>{create_minimal_mesh_files_2p6, create_minimal_mesh_files_dev}.
           fst (create mesh_dir w) = Inr ()
           \<and> (\<exists>t. files (snd (create mesh_dir w)) (path_join mesh_dir ''elem2d.out'')
                      = Some (File t)
                  \<and> take 1 (split_lines t) = [''5'']
                  \<and> length (split_lines t) = 11
                  \<and> (\<forall>i\<in>{1..5}. i mod 8 + 1 = i + 1
                        \<and> take 1 (drop (nat (2 * i)) (split_lines t))
                            = [format_d 8 (i + 1) @ '' '' @ format_d 8 (i + 2) @ '' ''
                               @ format_d 8 (i mod 8 + 1)]
                        \<and> line_numbers t (2 * i)
                            = [Some (of_int (i + 1)), Some (of_int (i + 2)),
                               Some (of_int (i + 1))]))"
proof -
  have "take 1 (split_lines elem2d_text) = [''5'']"
    and "length (split_lines elem2d_text) = 11"
    by (simp_all add: elem2d_lines)
  then have "\<exists>t. with_mesh_files mesh_dir (files w) (path_join mesh_dir ''elem2d.out'')
                      = Some (File t)
                  \<and> take 1 (split_lines t) = [''5'']
                  \<and> length (split_lines t) = 11
                  \<and> (\<forall>i\<in>{1..5}. i mod 8 + 1 = i + 1
                        \<and> take 1 (drop (nat (2 * i)) (split_lines t))
                            = [format_d 8 (i + 1) @ '' '' @ format_d 8 (i + 2) @ '' ''
                               @ format_d 8 (i mod 8 + 1)]
                        \<and> line_numbers t (2 * i)
                            = [Some (of_int (i + 1)), Some (of_int (i + 2)),
                               Some (of_int (i + 1))])"
    using elem2d_records by (intro exI [where x = elem2d_text]) (simp add: with_mesh_files_def)
  then show ?thesis
    by (simp add: create_ready [OF assms])
qed

theorem elem2d_never_wraps_witness:
  "mesh_dir_ready (files example_world) [''mesh'']
   \<and> fst (create_minimal_mesh_files_2p6 [''mesh''] example_world) = Inr ()
   \<and> line_numbers (file_text (snd (create_minimal_mesh_files_2p6 [''mesh''] example_world))
        (path_join [''mesh''] ''elem2d.out'')) 10
       = [Some 6, Some 7, Some 6]
   \<and> fst (create_minimal_mesh_files_dev [''mesh''] example_world) = Inr ()
   \<and> line_numbers (file_text (snd (create_minimal_mesh_files_dev [''mesh''] example_world))
        (path_join [''mesh''] ''elem2d.out'')) 2
       = [Some 2, Some 3, Some 2]"
proof -
  note all = elem2d_never_wraps [OF example_world_ready]
  from bspec [OF all, of create_minimal_mesh_files_2p6]
  obtain t where ok1: "fst (create_minimal_mesh_files_2p6 [''mesh''] example_world) = Inr ()"
    and t: "files (snd (create_minimal_mesh_files_2p6 [''mesh''] example_world))
              (path_join [''mesh''] ''elem2d.out'') = Some (File t)"
    and r: "\<forall>i\<in>{1..5}. i mod 8 + 1 = i + 1
                        \<and> take 1 (drop (nat (2 * i)) (split_lines t))
                            = [format_d 8 (i + 1) @ '' '' @ format_d 8 (i + 2) @ '' ''
                               @ format_d 8 (i mod 8 + 1)]
                        \<and> line_numbers t (2 * i)
                            = [Some (of_int (i + 1)), Some (of_int (i + 2)),
                               Some (of_int (i + 1))]"
    by auto
  from bspec [OF all, of create_minimal_mesh_files_dev]
  obtain u where ok2: "fst (create_minimal_mesh_files_dev [''mesh''] example_world) = Inr ()"
    and u: "files (snd (create_minimal_mesh_files_dev [''mesh''] example_world))
              (path_join [''mesh''] ''elem2d.out'') = Some (File u)"
    and q: "\<forall>i\<in>{1..5}. i mod 8 + 1 = i + 1
                        \<and> take 1 (drop (nat (2 * i)) (split_lines u))
                            = [format_d 8 (i + 1) @ '' '' @ format_d 8 (i + 2) @ '' ''
                               @ format_d 8 (i mod 8 + 1)]
                        \<and> line_numbers u (2 * i)
                            = [Some (of_int (i + 1)), Some (of_int (i + 2)),
                               Some (of_int (i + 1))]"
    by auto
  from bspec [OF r, of 5] have "line_numbers t 10 = [Some 6, Some 7, Some 6]"
    by simp
  moreover from bspec [OF q, of 1] have "line_numbers u 2 = [Some 2, Some 3, Some 2]"
    by simp
  ultimately show ?thesis
    using ok1 ok2 t u example_world_ready by (simp add: file_text_def)
qed

lemma nod3d_lines:
  "split_lines nod3d_text =
     [''30'',
      ''       1    300.1000000      74.0500000     -0.0000000        0'',
      ''       2    300.2000000      74.1000000     -0.0000000        0'',
      ''       3    300.3000000      74.1500000     -0.0000000        0'',
      ''       4    300.4000000      74.2000000     -0.0000000        0'',
      ''       5    300.5000000      74.2500000     -0.0000000        0'',
      ''       6    300.6000000      74.3000000     -0.0000000        0'',
      ''       7    300.7000000      74.3500000     -0.0000000        0'',
      ''       8    300.8000000      74.4000000     -0.0000000        0'',
      ''       9    300.9000000      74.4500000     -0.0000000        0'',
      ''      10    300.0000000      74.0000000   -100.0000000        0'',
      ''      11    300.1000000      74.0500000   -100.0000000        0'',
      ''      12    300.2000000      74.1000000   -100.0000000        0'',
      ''      13    300.3000000      74.1500000   -100.0000000        0'',
      ''      14    300.4000000      74.2000000   -100.0000000        0'',
      ''      15    300.5000000      74.2500000   -100.0000000        0'',
      ''      16    300.6000000      74.3000000   -100.0000000        0'',
      ''      17    300.7000000      74.3500000   -100.0000000        0'',
      ''      18    300.8000000      74.4000000   -100.0000000        0'',
      ''      19    300.9000000      74.4500000   -100.0000000        0'',
      ''      20    300.0000000      74.0000000   -200.0000000        0'',
      ''      21    300.1000000      74.0500000   -200.0000000        0'',
      ''      22    300.2000000      74.1000000   -200.0000000        0'',
      ''      23    300.3000000      74.1500000   -200.0000000        0'',
      ''      24    300.4000000      74.2000000   -200.0000000        0'',
      ''      25    300.5000000      74.2500000   -200.0000000        0'',
      ''      26    300.6000000      74.3000000   -200.0000000        0'',
      ''      27    300.7000000      74.3500000   -200.0000000        0'',
      ''      28    300.8000000      74.4000000   -200.0000000        0'',
      ''      29    300.9000000      74.4500000   -200.0000000        0'',
      ''      30    300.0000000      74.0000000   -300.0000000        0'']"
  unfolding nod3d_text_def by (subst split_lines_unlines) simp_all

lemma int_1_30:
  "{1..30::int} = {1, 2, 3, 4, 5, 6, 7, 8, 9, 10, 11, 12, 13, 14, 15, 16, 17, 18, 19, 20,
                   21, 22, 23, 24, 25, 26, 27, 28, 29, 30}"
proof -
  have "{1..30::int} = set (py_range 1 31)"
    by (simp add: py_range_def)
  also have "\<dots> = {1, 2, 3, 4, 5, 6, 7, 8, 9, 10, 11, 12, 13, 14, 15, 16, 17, 18, 19, 20,
                   21, 22, 23, 24, 25, 26, 27, 28, 29, 30}"
    unfolding ranges by simp
  finally show ?thesis .
qed

lemma nod3d_records:
  assumes "i \<in> {1..30}"
  shows "line_numbers nod3d_text i
           = [Some (of_int i), Some (300 + of_int (i mod 10) / 10),
              Some (74 + of_int (i mod 10) / 20), Some (- 100 * of_int (i div 10)), Some 0]"
  using assms unfolding int_1_30
  by (elim insertE emptyE)
     (simp_all add: line_numbers_def nod3d_lines fields_def parse_decimal_def is_digit_def
        digits_value_def)

lemma nod2d_lon_lat:
  assumes "k \<in> {1..10}"
  shows "lon_lat nod2d_text k = [Some (300 + of_int k / 10), Some (74 + of_int k / 20)]"
  by (simp add: lon_lat_def nod2d_records [OF assms])

lemma nod3d_lon_lat:
  assumes "i \<in> {1..30}"
  shows "lon_lat nod3d_text i
           = [Some (300 + of_int (i mod 10) / 10), Some (74 + of_int (i mod 10) / 20)]"
  by (simp add: lon_lat_def nod3d_records [OF assms])

lemma aux3d_lines:
  "split_lines aux3d_text = [''3'', ''       1'', ''      11'', ''      21'']"
  unfolding aux3d_text_def by (subst split_lines_unlines) simp_all

text \<open>
  C1.  Record \<open>i\<close> of \<open>nod3d.out\<close> is claimed to carry the longitude and latitude of
  record \<open>((i - 1) mod 10) + 1\<close> of \<open>nod2d.out\<close>.  The code cycles with \<open>i mod 10\<close>
  instead, which is 0 at the indices 10, 20 and 30.  On the empty directory of
  \<open>example_world\<close> both copies of the synthesizer succeed, and record 10 of
  \<open>nod3d.out\<close> carries longitude 300 and latitude 74 where record
  \<open>((10 - 1) mod 10) + 1 = 10\<close> of \<open>nod2d.out\<close> carries 301 and 74.5.  The same shift
  shows in the depths: \<open>aux3d.out\<close>, written by the same function, lets the three layers
  start at the nodes 1, 11 and 21, yet node 10 is already at depth \<open>-100\<close> (node 9 is at
  0) and node 30 is at a fourth depth, \<open>-300\<close>.
\<close>

theorem nod3d_record_10_off_by_one:
  "fst (create_minimal_mesh_files_2p6 [''mesh''] example_world) = Inr ()
   \<and> lon_lat (file_text (snd (create_minimal_mesh_files_2p6 [''mesh''] example_world))
               (path_join [''mesh''] ''nod3d.out'')) 10
       = [Some 300, Some 74]
   \<and> lon_lat (file_text (snd (create_minimal_mesh_files_2p6 [''mesh''] example_world))
               (path_join [''mesh''] ''nod2d.out'')) ((10 - 1) mod 10 + 1)
       = [Some 301, Some (149 / 2)]
   \<and> fst (create_minimal_mesh_files_dev [''mesh''] example_world) = Inr ()
   \<and> lon_lat (file_text (snd (create_minimal_mesh_files_dev [''mesh''] example_world))
               (path_join [''mesh''] ''nod3d.out'')) 10
       = [Some 300, Some 74]
   \<and> lon_lat (file_text (snd (create_minimal_mesh_files_dev [''mesh''] example_world))
               (path_join [''mesh''] ''nod2d.out'')) ((10 - 1) mod 10 + 1)
       = [Some 301, Some (149 / 2)]
   \<and> split_lines (file_text (snd (create_minimal_mesh_files_2p6 [''mesh''] example_world))
               (path_join [''mesh''] ''aux3d.out''))
       = [''3'', ''       1'', ''      11'', ''      21'']
   \<and> drop 3 (line_numbers (file_text (snd (create_minimal_mesh_files_2p6 [''mesh''] example_world))
               (path_join [''mesh''] ''nod3d.out'')) 9) = [Some 0, Some 0]
   \<and> drop 3 (line_numbers (file_text (snd (create_minimal_mesh_files_2p6 [''mesh''] example_world))
               (path_join [''mesh''] ''nod3d.out'')) 10) = [Some (- 100), Some 0]
   \<and> drop 3 (line_numbers (file_text (snd (create_minimal_mesh_files_2p6 [''mesh''] example_world))
               (path_join [''mesh''] ''nod3d.out'')) 30) = [Some (- 300), Some 0]"
  by (simp add: create_ready [OF example_world_ready] file_text_def with_mesh_files_def
      nod3d_lon_lat nod2d_lon_lat nod3d_records aux3d_lines)

section \<open>Stub directories\<close>
















section \<open>Configuration lookup and real data\<close>




text \<open>
  C5.  \<open>fetch_real_datadir\<close> of the 2.6 run hands the archive name and its registry to the
  fetcher.  When the fetcher returns a directory, the result is the directory
  \<open>fesom_2p6_pimesh\<close> inside it if that exists (in the world the fetcher left), and the
  returned directory itself otherwise; the world is the one the fetcher left.  When the
  fetcher raises, so does \<open>fetch_real_datadir\<close>, with the same exception.
\<close>

theorem fetch_real_datadir_unwraps:
  assumes "fetch_and_extract ''fesom_2p6_pimesh.tar'' (path_join module_dir ''registry.yaml'') w
             = (r, w1)"
  shows "fetch_real_datadir_2p6 fetch_and_extract module_dir w
           = (case r of
                Inl e \<Rightarrow> (Inl e, w1)
              | Inr data_dir \<Rightarrow>
                  (Inr (if path_exists (files w1) (path_join data_dir ''fesom_2p6_pimesh'')
                        then path_join data_dir ''fesom_2p6_pimesh'' else data_dir), w1))"
  using assms
  by (simp add: fetch_real_datadir_2p6_def registry_path_2p6_def bind_io_def Let_def
      split: sum.splits)

theorem fetch_real_datadir_unwraps_witness:
  "fetch_real_datadir_2p6 cached_fetcher [''pkg''] unpacked_world
     = (Inr [''data'', ''fesom_2p6_pimesh''], unpacked_world)
   \<and> fetch_real_datadir_2p6 cached_fetcher [''pkg''] example_world
     = (Inr [''data''], example_world)
   \<and> fetch_real_datadir_2p6 failing_fetcher [''pkg''] unpacked_world
     = (Inl (ExternalError ''download failed''), unpacked_world)"
proof -
  have f: "cached_fetcher ''fesom_2p6_pimesh.tar'' (path_join [''pkg''] ''registry.yaml'') w
             = (Inr [''data''], w)" for w
    by (simp add: cached_fetcher_def return_io_def)
  have g: "failing_fetcher ''fesom_2p6_pimesh.tar'' (path_join [''pkg''] ''registry.yaml'')
             unpacked_world = (Inl (ExternalError ''download failed''), unpacked_world)"
    by (simp add: failing_fetcher_def raise_io_def)
  show ?thesis
    using fetch_real_datadir_unwraps
            [of cached_fetcher "[''pkg'']" unpacked_world "Inr [''data'']" unpacked_world, OF f]
      fetch_real_datadir_unwraps
            [of cached_fetcher "[''pkg'']" example_world "Inr [''data'']" example_world, OF f]
      fetch_real_datadir_unwraps
            [of failing_fetcher "[''pkg'']" unpacked_world
                "Inl (ExternalError ''download failed'')" unpacked_world, OF g]
    by (simp add: path_exists_def unpacked_world_def example_world_def path_join_def)
qed

section \<open>Fetching the real mesh\<close>

text \<open>
  C3.  When the cache holds \<open>pi_mesh_git\<close> with a \<open>.git\<close> entry in it,
  \<open>fetch_real_meshdir\<close> returns that path; the file system and the list of started
  commands are as before (only the logger was called), the result does not depend on the
  command runner at all, and a second call returns the same path, again without touching
  the file system or starting a command.
\<close>

theorem cached_clone_is_returned:
  assumes "path_exists (files w) (path_join cache_dir ''pi_mesh_git'')"
    and "path_exists (files w) (path_join (path_join cache_dir ''pi_mesh_git'') ''.git'')"
  shows "\<exists>w'. fetch_real_meshdir run cache_dir w = (Inr (path_join cache_dir ''pi_mesh_git''), w')
           \<and> files w' = files w \<and> commands w' = commands w
           \<and> fetch_real_meshdir run' cache_dir w = fetch_real_meshdir run cache_dir w
           \<and> fst (fetch_real_meshdir run cache_dir w') = Inr (path_join cache_dir ''pi_mesh_git'')
           \<and> files (snd (fetch_real_meshdir run cache_dir w')) = files w
           \<and> commands (snd (fetch_real_meshdir run cache_dir w')) = commands w"
  using assms
  by (simp add: fetch_real_meshdir_def Let_def then_io_def bind_io_def logger_info_def
      return_io_def)

lemma cloned_world_cached:
  "path_exists (files cloned_world) (path_join [''cache''] ''pi_mesh_git'')"
  "path_exists (files cloned_world) (path_join (path_join [''cache''] ''pi_mesh_git'') ''.git'')"
  by (simp_all add: path_exists_def cloned_world_def path_join_def)

theorem cached_clone_is_returned_witness:
  "path_exists (files cloned_world) (path_join [''cache''] ''pi_mesh_git'')
   \<and> path_exists (files cloned_world) (path_join (path_join [''cache''] ''pi_mesh_git'') ''.git'')
   \<and> fst (fetch_real_meshdir runner_no_git [''cache''] cloned_world)
       = Inr [''cache'', ''pi_mesh_git'']
   \<and> files (snd (fetch_real_meshdir runner_no_git [''cache''] cloned_world)) = files cloned_world
   \<and> commands (snd (fetch_real_meshdir runner_no_git [''cache''] cloned_world)) = []"
proof -
  from cached_clone_is_returned [OF cloned_world_cached, of runner_no_git runner_no_git]
  obtain w' where "fetch_real_meshdir runner_no_git [''cache''] cloned_world
                     = (Inr (path_join [''cache''] ''pi_mesh_git''), w')"
    and "files w' = files cloned_world" and "commands w' = commands cloned_world"
    by blast
  then show ?thesis
    by (simp add: cloned_world_cached) (simp add: path_join_def cloned_world_def)
qed

subsection \<open>Failures of the probe and of the clone\<close>

lemma str_int_10: "str_int 10 = ''10''" and str_int_300: "str_int 300 = ''300''"
  by code_simp+

lemma sublist_middle: "sublist ys (xs @ ys @ zs)"
  by (rule sublist_appendI)

text \<open>The call up to the end of the probe, when there is no completed clone.\<close>

lemma fetch_probe:
  assumes "\<not> (path_exists (files w) (path_join cache_dir ''pi_mesh_git'')
             \<and> path_exists (files w) (path_join (path_join cache_dir ''pi_mesh_git'') ''.git''))"
    and "run [''git'', ''lfs'', ''version''] 10 (files w) = (probe, fs1)"
    and "probe = TimedOut \<or> probe = CommandNotFound"
  shows "fst (fetch_real_meshdir run cache_dir w)
           = Inl (RuntimeError
               (if probe = TimedOut then ''Git clone timed out after '' @ str_int 10 @ '' seconds''
                else ''git command not found. Please install git.''))"
  using assms
  by (auto simp: fetch_real_meshdir_def Let_def then_io_def bind_io_def logger_info_def
      try_except_def subprocess_run_def raise_io_def)

lemma fetch_probe_ok:
  assumes "\<not> (path_exists (files w) (path_join cache_dir ''pi_mesh_git'')
             \<and> path_exists (files w) (path_join (path_join cache_dir ''pi_mesh_git'') ''.git''))"
    and "run [''git'', ''lfs'', ''version''] 10 (files w) = (Exited 0 out0 err0, fs1)"
    and "\<forall>t. fs1 (path_join cache_dir ''pi_mesh_git'') \<noteq> Some (File t)"
    and "run [''git'', ''clone'', ''https://gitlab.awi.de/fesom/pi'',
              path_str (path_join cache_dir ''pi_mesh_git'')] 300
           (if path_exists fs1 (path_join cache_dir ''pi_mesh_git'')
            then remove_tree fs1 (path_join cache_dir ''pi_mesh_git'') else fs1) = (clone, fs2)"
  shows "fst (fetch_real_meshdir run cache_dir w)
           = (case clone of
                Exited rc out err \<Rightarrow>
                  if rc \<noteq> 0
                  then Inl (RuntimeError
                         (''Failed to clone mesh repository from https://gitlab.awi.de/fesom/pi\<newline>''
                          @ ''Git error: '' @ err @ ''\<newline>'' @ ''Git output: '' @ out
                          @ ''\<newline>''))
                  else Inr (path_join cache_dir ''pi_mesh_git'')
              | TimedOut \<Rightarrow>
                  Inl (RuntimeError (''Git clone timed out after '' @ str_int 300 @ '' seconds''))
              | CommandNotFound \<Rightarrow>
                  Inl (RuntimeError ''git command not found. Please install git.'')
              | StartFailed msg \<Rightarrow> Inl (ExternalError msg))"
proof (cases "path_exists fs1 (path_join cache_dir ''pi_mesh_git'')")
  case True
  with assms(3) have "fs1 (path_join cache_dir ''pi_mesh_git'') = Some Dir"
    by (cases "fs1 (path_join cache_dir ''pi_mesh_git'')")
       (auto simp: path_exists_def intro: node.exhaust)
  with True assms(1,2,4) show ?thesis
    by (cases clone)
       (auto simp: fetch_real_meshdir_def Let_def then_io_def bind_io_def logger_info_def
          logger_error_def try_except_def subprocess_run_def raise_io_def return_io_def
          rmtree_def MESH_GIT_REPO_def)
next
  case False
  with assms(1,2,4) show ?thesis
    by (cases clone)
       (auto simp: fetch_real_meshdir_def Let_def then_io_def bind_io_def logger_info_def
          logger_error_def try_except_def subprocess_run_def raise_io_def return_io_def
          rmtree_def MESH_GIT_REPO_def)
qed

lemma fetch_probe_other:
  assumes "\<not> (path_exists (files w) (path_join cache_dir ''pi_mesh_git'')
             \<and> path_exists (files w) (path_join (path_join cache_dir ''pi_mesh_git'') ''.git''))"
    and "run [''git'', ''lfs'', ''version''] 10 (files w) = (probe, fs1)"
    and "\<forall>out err. probe \<noteq> Exited 0 out err"
  shows "\<exists>e. fst (fetch_real_meshdir run cache_dir w) = Inl e"
  using assms
  by (cases probe)
     (auto simp: fetch_real_meshdir_def Let_def then_io_def bind_io_def logger_info_def
        try_except_def subprocess_run_def raise_io_def)

lemma fetch_not_a_directory:
  assumes "\<not> (path_exists (files w) (path_join cache_dir ''pi_mesh_git'')
             \<and> path_exists (files w) (path_join (path_join cache_dir ''pi_mesh_git'') ''.git''))"
    and "run [''git'', ''lfs'', ''version''] 10 (files w) = (Exited 0 out0 err0, fs1)"
    and "fs1 (path_join cache_dir ''pi_mesh_git'') = Some (File t)"
  shows "fst (fetch_real_meshdir run cache_dir w) = Inl NotADirectoryError"
  using assms
  by (auto simp: fetch_real_meshdir_def Let_def then_io_def bind_io_def logger_info_def
      try_except_def subprocess_run_def raise_io_def rmtree_def path_exists_def)

lemma fetch_returns:
  assumes nc: "\<not> (path_exists (files w) (path_join cache_dir ''pi_mesh_git'')
             \<and> path_exists (files w) (path_join (path_join cache_dir ''pi_mesh_git'') ''.git''))"
    and pr: "run [''git'', ''lfs'', ''version''] 10 (files w) = (probe, fs1)"
    and cl: "run [''git'', ''clone'', ''https://gitlab.awi.de/fesom/pi'',
              path_str (path_join cache_dir ''pi_mesh_git'')] 300
           (if path_exists fs1 (path_join cache_dir ''pi_mesh_git'')
            then remove_tree fs1 (path_join cache_dir ''pi_mesh_git'') else fs1) = (clone, fs2)"
    and ok: "fst (fetch_real_meshdir run cache_dir w) = Inr p"
  shows "p = path_join cache_dir ''pi_mesh_git''
         \<and> (\<exists>out err. probe = Exited 0 out err) \<and> (\<exists>out err. clone = Exited 0 out err)"
proof -
  have "\<exists>out err. probe = Exited 0 out err"
  proof (rule ccontr)
    assume "\<not> (\<exists>out err. probe = Exited 0 out err)"
    then have "\<forall>out err. probe \<noteq> Exited 0 out err"
      by simp
    from fetch_probe_other [where run = run, OF nc pr this] ok show False
      by simp
  qed
  then obtain out0 err0 where p0: "probe = Exited 0 out0 err0"
    by blast
  have nf: "\<forall>t. fs1 (path_join cache_dir ''pi_mesh_git'') \<noteq> Some (File t)"
  proof (intro allI notI)
    fix t
    assume "fs1 (path_join cache_dir ''pi_mesh_git'') = Some (File t)"
    from fetch_not_a_directory [where run = run, OF nc pr [unfolded p0] this] ok show False
      by simp
  qed
  from fetch_probe_ok [where run = run, OF nc pr [unfolded p0] nf cl] ok
  have "p = path_join cache_dir ''pi_mesh_git'' \<and> (\<exists>out err. clone = Exited 0 out err)"
    by (cases clone) (auto split: if_splits)
  with p0 show ?thesis
    by simp
qed

text \<open>
  C4.  Let there be no completed clone in the cache, let \<open>probe\<close> be the outcome of
  \<open>git lfs version\<close> (started with a timeout of 10 seconds) and \<open>clone\<close> the outcome of
  \<open>git clone\<close> (started with a timeout of 300 seconds on the file system the probe left,
  without the partial clone).  Then:
  \<^item> a probe that times out raises \<open>RuntimeError\<close> with a message that contains the
    timeout 10, and a missing binary raises \<open>RuntimeError\<close> with the message that names
    git;
  \<^item> after a probe that exited with 0 (and unless \<open>pi_mesh_git\<close> is a regular file,
    which \<open>rmtree\<close> refuses): a clone that exits with a code other than 0 raises
    \<open>RuntimeError\<close> with a message that contains the captured standard error and standard
    output; a clone that times out raises \<open>RuntimeError\<close> with a message that contains
    the timeout 300; a missing binary raises \<open>RuntimeError\<close> with the message that names
    git;
  \<^item> the message for the missing binary differs from every timeout message, from every
    message of a failed clone and from the message for a missing git-lfs;
  \<^item> the call returns a path only when both commands exited with 0, and then it is the
    path of the clone.
\<close>

theorem clone_failures_raise:
  assumes nc: "\<not> (path_exists (files w) (path_join cache_dir ''pi_mesh_git'')
             \<and> path_exists (files w) (path_join (path_join cache_dir ''pi_mesh_git'') ''.git''))"
    and pr: "run [''git'', ''lfs'', ''version''] 10 (files w) = (probe, fs1)"
    and cl: "run [''git'', ''clone'', ''https://gitlab.awi.de/fesom/pi'',
              path_str (path_join cache_dir ''pi_mesh_git'')] 300
           (if path_exists fs1 (path_join cache_dir ''pi_mesh_git'')
            then remove_tree fs1 (path_join cache_dir ''pi_mesh_git'') else fs1) = (clone, fs2)"
  shows "(probe = TimedOut \<longrightarrow>
            fst (fetch_real_meshdir run cache_dir w)
              = Inl (RuntimeError (''Git clone timed out after '' @ ''10'' @ '' seconds'')))
       \<and> (probe = CommandNotFound \<longrightarrow>
            fst (fetch_real_meshdir run cache_dir w)
              = Inl (RuntimeError ''git command not found. Please install git.''))
       \<and> ((\<exists>out err. probe = Exited 0 out err)
            \<and> (\<forall>t. fs1 (path_join cache_dir ''pi_mesh_git'') \<noteq> Some (File t)) \<longrightarrow>
            (\<forall>rc out err. clone = Exited rc out err \<and> rc \<noteq> 0 \<longrightarrow>
               (\<exists>msg. fst (fetch_real_meshdir run cache_dir w) = Inl (RuntimeError msg)
                   \<and> msg = ''Failed to clone mesh repository from https://gitlab.awi.de/fesom/pi\<newline>''
                           @ ''Git error: '' @ err @ ''\<newline>'' @ ''Git output: '' @ out
                           @ ''\<newline>''
                   \<and> sublist err msg \<and> sublist out msg))
          \<and> (clone = TimedOut \<longrightarrow>
               fst (fetch_real_meshdir run cache_dir w)
                 = Inl (RuntimeError (''Git clone timed out after '' @ ''300'' @ '' seconds'')))
          \<and> (clone = CommandNotFound \<longrightarrow>
               fst (fetch_real_meshdir run cache_dir w)
                 = Inl (RuntimeError ''git command not found. Please install git.'')))
       \<and> (\<forall>t out err.
             ''git command not found. Please install git.''
               \<noteq> ''Git clone timed out after '' @ str_int t @ '' seconds''
           \<and> ''git command not found. Please install git.''
               \<noteq> ''Failed to clone mesh repository from https://gitlab.awi.de/fesom/pi\<newline>''
                   @ ''Git error: '' @ err @ ''\<newline>'' @ ''Git output: '' @ out @ ''\<newline>''
           \<and> ''git command not found. Please install git.''
               \<noteq> ''git-lfs is not installed. Please install git-lfs to download mesh data.\<newline>''
                   @ ''See: https://git-lfs.github.com/'')
       \<and> sublist ''git'' ''git command not found. Please install git.''
       \<and> (\<forall>p. fst (fetch_real_meshdir run cache_dir w) = Inr p \<longrightarrow>
             p = path_join cache_dir ''pi_mesh_git''
             \<and> (\<exists>out err. probe = Exited 0 out err) \<and> (\<exists>out err. clone = Exited 0 out err))"
proof (intro conjI impI allI)
  assume "probe = TimedOut"
  with fetch_probe [where run = run, OF nc pr]
  show "fst (fetch_real_meshdir run cache_dir w)
          = Inl (RuntimeError (''Git clone timed out after '' @ ''10'' @ '' seconds''))"
    by (simp add: str_int_10)
next
  assume "probe = CommandNotFound"
  with fetch_probe [where run = run, OF nc pr]
  show "fst (fetch_real_meshdir run cache_dir w)
          = Inl (RuntimeError ''git command not found. Please install git.'')"
    by simp
next
  fix rc out err
  assume p: "(\<exists>out err. probe = Exited 0 out err)
            \<and> (\<forall>t. fs1 (path_join cache_dir ''pi_mesh_git'') \<noteq> Some (File t))"
    and c: "clone = Exited rc out err \<and> rc \<noteq> 0"
  from p obtain out0 err0 where p0: "probe = Exited 0 out0 err0"
    by blast
  from fetch_probe_ok [where run = run, OF nc pr [unfolded p0] conjunct2 [OF p] cl] c
  have r: "fst (fetch_real_meshdir run cache_dir w)
          = Inl (RuntimeError
                  (''Failed to clone mesh repository from https://gitlab.awi.de/fesom/pi\<newline>''
                   @ ''Git error: '' @ err @ ''\<newline>'' @ ''Git output: '' @ out @ ''\<newline>''))"
    by simp
  have e: "sublist err
            (''Failed to clone mesh repository from https://gitlab.awi.de/fesom/pi\<newline>''
             @ ''Git error: '' @ err @ ''\<newline>'' @ ''Git output: '' @ out @ ''\<newline>'')"
    using sublist_middle
      [of err "''Failed to clone mesh repository from https://gitlab.awi.de/fesom/pi\<newline>''
               @ ''Git error: ''" "''\<newline>'' @ ''Git output: '' @ out @ ''\<newline>''"]
    by (simp only: append_assoc)
  have o: "sublist out
            (''Failed to clone mesh repository from https://gitlab.awi.de/fesom/pi\<newline>''
             @ ''Git error: '' @ err @ ''\<newline>'' @ ''Git output: '' @ out @ ''\<newline>'')"
    using sublist_middle
      [of out "''Failed to clone mesh repository from https://gitlab.awi.de/fesom/pi\<newline>''
               @ ''Git error: '' @ err @ ''\<newline>'' @ ''Git output: ''" "''\<newline>''"]
    by (simp only: append_assoc)
  from r e o
  show "\<exists>msg. fst (fetch_real_meshdir run cache_dir w) = Inl (RuntimeError msg)
           \<and> msg = ''Failed to clone mesh repository from https://gitlab.awi.de/fesom/pi\<newline>''
                   @ ''Git error: '' @ err @ ''\<newline>'' @ ''Git output: '' @ out @ ''\<newline>''
           \<and> sublist err msg \<and> sublist out msg"
    by (intro exI conjI) (assumption | rule refl)+
next
  assume p: "(\<exists>out err. probe = Exited 0 out err)
            \<and> (\<forall>t. fs1 (path_join cache_dir ''pi_mesh_git'') \<noteq> Some (File t))"
    and c: "clone = TimedOut"
  from p obtain out0 err0 where p0: "probe = Exited 0 out0 err0"
    by blast
  from fetch_probe_ok [where run = run, OF nc pr [unfolded p0] conjunct2 [OF p] cl] c
  show "fst (fetch_real_meshdir run cache_dir w)
          = Inl (RuntimeError (''Git clone timed out after '' @ ''300'' @ '' seconds''))"
    by (simp add: str_int_300)
next
  assume p: "(\<exists>out err. probe = Exited 0 out err)
            \<and> (\<forall>t. fs1 (path_join cache_dir ''pi_mesh_git'') \<noteq> Some (File t))"
    and c: "clone = CommandNotFound"
  from p obtain out0 err0 where p0: "probe = Exited 0 out0 err0"
    by blast
  from fetch_probe_ok [where run = run, OF nc pr [unfolded p0] conjunct2 [OF p] cl] c
  show "fst (fetch_real_meshdir run cache_dir w)
          = Inl (RuntimeError ''git command not found. Please install git.'')"
    by simp
next
  fix t
  show "''git command not found. Please install git.''
          \<noteq> ''Git clone timed out after '' @ str_int t @ '' seconds''"
    by simp
next
  fix out err
  show "''git command not found. Please install git.''
          \<noteq> ''Failed to clone mesh repository from https://gitlab.awi.de/fesom/pi\<newline>''
              @ ''Git error: '' @ err @ ''\<newline>'' @ ''Git output: '' @ out @ ''\<newline>''"
    by simp
next
  show "''git command not found. Please install git.''
          \<noteq> ''git-lfs is not installed. Please install git-lfs to download mesh data.\<newline>''
              @ ''See: https://git-lfs.github.com/''"
    by simp
next
  show "sublist ''git'' ''git command not found. Please install git.''"
    using sublist_middle [of "''git''" "[]" "'' command not found. Please install git.''"]
    by simp
next
  fix p
  assume "fst (fetch_real_meshdir run cache_dir w) = Inr p"
  from fetch_returns [where run = run, OF nc pr cl this]
  show "p = path_join cache_dir ''pi_mesh_git''"
    and "\<exists>out err. probe = Exited 0 out err"
    and "\<exists>out err. clone = Exited 0 out err"
    by simp_all
qed

lemma cache_world_not_cloned:
  "\<not> (path_exists (files cache_world) (path_join [''cache''] ''pi_mesh_git'')
      \<and> path_exists (files cache_world) (path_join (path_join [''cache''] ''pi_mesh_git'') ''.git''))"
  by (simp add: path_exists_def cache_world_def path_join_def)

lemma cache_world_no_file:
  "\<forall>t. files cache_world (path_join [''cache''] ''pi_mesh_git'') \<noteq> Some (File t)"
  by (simp add: cache_world_def path_join_def)

theorem clone_failures_raise_witness:
  "fst (fetch_real_meshdir runner_clone_fails [''cache''] cache_world)
     = Inl (RuntimeError
         (''Failed to clone mesh repository from https://gitlab.awi.de/fesom/pi\<newline>''
          @ ''Git error: fatal: repository not found\<newline>'' @ ''Git output: Cloning\<newline>''))
   \<and> fst (fetch_real_meshdir runner_clone_times_out [''cache''] cache_world)
     = Inl (RuntimeError ''Git clone timed out after 300 seconds'')
   \<and> fst (fetch_real_meshdir runner_probe_times_out [''cache''] cache_world)
     = Inl (RuntimeError ''Git clone timed out after 10 seconds'')
   \<and> fst (fetch_real_meshdir runner_no_git [''cache''] cache_world)
     = Inl (RuntimeError ''git command not found. Please install git.'')
   \<and> fst (fetch_real_meshdir runner_no_lfs [''cache''] cache_world)
     \<noteq> Inr [''cache'', ''pi_mesh_git'']"
proof (intro conjI)
  let ?clone = "[''git'', ''clone'', ''https://gitlab.awi.de/fesom/pi'',
                 path_str (path_join [''cache''] ''pi_mesh_git'')]"
  let ?fs = "if path_exists (files cache_world) (path_join [''cache''] ''pi_mesh_git'')
             then remove_tree (files cache_world) (path_join [''cache''] ''pi_mesh_git'')
             else files cache_world"
  have p1: "runner_clone_fails [''git'', ''lfs'', ''version''] 10 (files cache_world)
              = (Exited 0 ''git-lfs/3.4.0'' [], files cache_world)"
    by (simp add: runner_clone_fails_def)
  have c1: "runner_clone_fails ?clone 300 ?fs
              = (Exited 128 ''Cloning'' ''fatal: repository not found'', ?fs)"
    by (simp add: runner_clone_fails_def)
  from clone_failures_raise [where run = runner_clone_fails, OF cache_world_not_cloned p1 c1]
  have "(\<exists>out err. Exited 0 ''git-lfs/3.4.0'' [] = Exited 0 out err)
            \<and> (\<forall>t. files cache_world (path_join [''cache''] ''pi_mesh_git'') \<noteq> Some (File t)) \<longrightarrow>
            (\<forall>rc out err. Exited 128 ''Cloning'' ''fatal: repository not found'' = Exited rc out err
                 \<and> rc \<noteq> 0 \<longrightarrow>
               (\<exists>msg. fst (fetch_real_meshdir runner_clone_fails [''cache''] cache_world)
                        = Inl (RuntimeError msg)
                   \<and> msg = ''Failed to clone mesh repository from https://gitlab.awi.de/fesom/pi\<newline>''
                           @ ''Git error: '' @ err @ ''\<newline>'' @ ''Git output: '' @ out
                           @ ''\<newline>''
                   \<and> sublist err msg \<and> sublist out msg))"
    by (elim conjE) (intro impI, (erule (1) impE)?, elim conjE, assumption)
  with cache_world_no_file
  show "fst (fetch_real_meshdir runner_clone_fails [''cache''] cache_world)
     = Inl (RuntimeError
         (''Failed to clone mesh repository from https://gitlab.awi.de/fesom/pi\<newline>''
          @ ''Git error: fatal: repository not found\<newline>'' @ ''Git output: Cloning\<newline>''))"
    by auto
next
  let ?clone = "[''git'', ''clone'', ''https://gitlab.awi.de/fesom/pi'',
                 path_str (path_join [''cache''] ''pi_mesh_git'')]"
  let ?fs = "if path_exists (files cache_world) (path_join [''cache''] ''pi_mesh_git'')
             then remove_tree (files cache_world) (path_join [''cache''] ''pi_mesh_git'')
             else files cache_world"
  have p2: "runner_clone_times_out [''git'', ''lfs'', ''version''] 10 (files cache_world)
              = (Exited 0 ''git-lfs/3.4.0'' [], files cache_world)"
    by (simp add: runner_clone_times_out_def)
  have c2: "runner_clone_times_out ?clone 300 ?fs = (TimedOut, ?fs)"
    by (simp add: runner_clone_times_out_def)
  from clone_failures_raise [where run = runner_clone_times_out, OF cache_world_not_cloned p2 c2]
    cache_world_no_file
  show "fst (fetch_real_meshdir runner_clone_times_out [''cache''] cache_world)
     = Inl (RuntimeError ''Git clone timed out after 300 seconds'')"
    by simp
next
  let ?clone = "[''git'', ''clone'', ''https://gitlab.awi.de/fesom/pi'',
                 path_str (path_join [''cache''] ''pi_mesh_git'')]"
  let ?fs = "if path_exists (files cache_world) (path_join [''cache''] ''pi_mesh_git'')
             then remove_tree (files cache_world) (path_join [''cache''] ''pi_mesh_git'')
             else files cache_world"
  have p3: "runner_probe_times_out [''git'', ''lfs'', ''version''] 10 (files cache_world)
              = (TimedOut, files cache_world)"
    by (simp add: runner_probe_times_out_def)
  have c3: "runner_probe_times_out ?clone 300 ?fs = (TimedOut, ?fs)"
    by (simp add: runner_probe_times_out_def)
  from clone_failures_raise [where run = runner_probe_times_out, OF cache_world_not_cloned p3 c3]
  show "fst (fetch_real_meshdir runner_probe_times_out [''cache''] cache_world)
     = Inl (RuntimeError ''Git clone timed out after 10 seconds'')"
    by simp
next
  let ?clone = "[''git'', ''clone'', ''https://gitlab.awi.de/fesom/pi'',
                 path_str (path_join [''cache''] ''pi_mesh_git'')]"
  let ?fs = "if path_exists (files cache_world) (path_join [''cache''] ''pi_mesh_git'')
             then remove_tree (files cache_world) (path_join [''cache''] ''pi_mesh_git'')
             else files cache_world"
  have p4: "runner_no_git [''git'', ''lfs'', ''version''] 10 (files cache_world)
              = (CommandNotFound, files cache_world)"
    by (simp add: runner_no_git_def)
  have c4: "runner_no_git ?clone 300 ?fs = (CommandNotFound, ?fs)"
    by (simp add: runner_no_git_def)
  from clone_failures_raise [where run = runner_no_git, OF cache_world_not_cloned p4 c4]
  show "fst (fetch_real_meshdir runner_no_git [''cache''] cache_world)
     = Inl (RuntimeError ''git command not found. Please install git.'')"
    by simp
next
  let ?clone = "[''git'', ''clone'', ''https://gitlab.awi.de/fesom/pi'',
                 path_str (path_join [''cache''] ''pi_mesh_git'')]"
  let ?fs = "if path_exists (files cache_world) (path_join [''cache''] ''pi_mesh_git'')
             then remove_tree (files cache_world) (path_join [''cache''] ''pi_mesh_git'')
             else files cache_world"
  have p5: "runner_no_lfs [''git'', ''lfs'', ''version''] 10 (files cache_world)
              = (Exited 1 [] ''git: lfs is not a git command'', files cache_world)"
    by (simp add: runner_no_lfs_def)
  have c5: "runner_no_lfs ?clone 300 ?fs = (Exited 1 [] ''git: lfs is not a git command'', ?fs)"
    by (simp add: runner_no_lfs_def)
  from clone_failures_raise [where run = runner_no_lfs, OF cache_world_not_cloned p5 c5]
  show "fst (fetch_real_meshdir runner_no_lfs [''cache''] cache_world)
          \<noteq> Inr [''cache'', ''pi_mesh_git'']"
    by auto
qed


end
